theory Spec2Isabelle
  imports Complex_Main
begin

section \<open>JavaScript values\<close>

text \<open>
  The normalizer receives its raw records as \<^verbatim>\<open>any\<close>: objects read from JSON cache files.
  A value is therefore a JSON value, plus \<^verbatim>\<open>undefined\<close> for what a read of a missing
  property gives. Numbers are the rationals that JSON literals denote (IEEE rounding is
  not modelled). Strings are lists of code units; the model has the 8-bit ones.
\<close>

datatype js = JUndefined | JNull | JBool bool | JNum rat | JStr string | JObj "(string \<times> js) list"

datatype error = TypeError | RangeError

text \<open>\<^verbatim>\<open>if (v)\<close>, \<^verbatim>\<open>v || w\<close>: the falsy values are undefined, null, false, 0 and the empty string.\<close>

fun truthy :: "js \<Rightarrow> bool" where
  "truthy JUndefined = False"
| "truthy JNull = False"
| "truthy (JBool b) = b"
| "truthy (JNum q) = (q \<noteq> 0)"
| "truthy (JStr s) = (s \<noteq> [])"
| "truthy (JObj kvs) = True"

definition or_js :: "js \<Rightarrow> js \<Rightarrow> js" where
  "or_js a b = (if truthy a then a else b)"

text \<open>
  \<^verbatim>\<open>v?.key\<close>: a property read that gives undefined on undefined and null. The data
  properties the code reads (id, name, score, status, ...) exist on objects only. An
  object is the list of its properties, each key once.
\<close>

fun jsget :: "js \<Rightarrow> string \<Rightarrow> js" where
  "jsget (JObj kvs) k = (case map_of kvs k of Some v \<Rightarrow> v | None \<Rightarrow> JUndefined)"
| "jsget v k = JUndefined"

definition nullish :: "js \<Rightarrow> bool" where
  "nullish v = (v = JUndefined \<or> v = JNull)"

section \<open>String built-ins\<close>

text \<open>
  \<^verbatim>\<open>toUpperCase\<close> and \<^verbatim>\<open>toLowerCase\<close> on 8-bit code units (Latin-1). Lower case is
  a-z and 0xE0-0xFE without the division sign 0xF7, upper case A-Z and 0xC0-0xDE without
  the multiplication sign 0xD7, 32 apart; the sharp s 0xDF becomes SS in upper case. The
  upper-case forms of the micro sign 0xB5 and of y with diaeresis 0xFF are U+039C and
  U+0178, no 8-bit code units: on strings with one of the two \<open>toUpperCase\<close> is not the
  engine's function (it leaves them as they are), and statements about upper case
  exclude them by \<open>upperCaseIn8Bit\<close>.
\<close>

definition upperUnits :: "char \<Rightarrow> string" where
  "upperUnits c =
     (let n = (of_char c :: nat) in
      if (97 \<le> n \<and> n \<le> 122) \<or> (224 \<le> n \<and> n \<le> 254 \<and> n \<noteq> 247) then [char_of (n - 32)]
      else if n = 223 then ''SS''
      else [c])"

definition lowerChar :: "char \<Rightarrow> char" where
  "lowerChar c =
     (let n = (of_char c :: nat) in
      if (65 \<le> n \<and> n \<le> 90) \<or> (192 \<le> n \<and> n \<le> 222 \<and> n \<noteq> 215) then char_of (n + 32)
      else c)"

definition toUpperCase :: "string \<Rightarrow> string" where
  "toUpperCase s = concat (map upperUnits s)"

definition toLowerCase :: "string \<Rightarrow> string" where
  "toLowerCase s = map lowerChar s"

definition upperCaseIn8Bit :: "string \<Rightarrow> bool" where
  "upperCaseIn8Bit s \<longleftrightarrow> CHR 0xB5 \<notin> set s \<and> CHR 0xFF \<notin> set s"

text \<open>The class \<^verbatim>\<open>\s\<close> among 8-bit code units: TAB, LF, VT, FF, CR, space and NBSP.\<close>

definition isWhitespace :: "char \<Rightarrow> bool" where
  "isWhitespace c = ((of_char c :: nat) \<in> {9, 10, 11, 12, 13, 32, 160})"

text \<open>\<^verbatim>\<open>s.split(' ')\<close>: the pieces between single spaces; an empty string gives one empty piece.\<close>

fun split_space :: "string \<Rightarrow> string list" where
  "split_space [] = [[]]"
| "split_space (c # cs) =
     (if c = CHR '' '' then [] # split_space cs
      else (case split_space cs of [] \<Rightarrow> [[c]] | w # ws \<Rightarrow> (c # w) # ws))"

text \<open>\<^verbatim>\<open>s.replace(/\s+/g, '-')\<close>: every maximal run of whitespace becomes one hyphen.\<close>

function replace_ws :: "string \<Rightarrow> string" where
  "replace_ws [] = []"
| "replace_ws (c # cs) =
     (if isWhitespace c then CHR ''-'' # replace_ws (dropWhile isWhitespace cs)
      else c # replace_ws cs)"
  by pat_completeness auto
termination
  by (relation "measure length") (auto simp: le_imp_less_Suc length_dropWhile_le)

section \<open>The runtime: Date and number formatting\<close>

text \<open>
  \<^verbatim>\<open>new Date(s)\<close>, \<^verbatim>\<open>toISOString\<close> and the number-to-string conversion belong to the
  JavaScript engine. The program is modelled over any engine: a record of these
  functions, an instant being its milliseconds since the epoch and \<open>None\<close> the
  Invalid Date (time value NaN).
\<close>

record js_runtime =
  dateParse :: "string \<Rightarrow> int option"
  toISOString :: "int \<Rightarrow> string"
  numberToString :: "rat \<Rightarrow> string"

text \<open>
  What every call reads from outside its arguments: \<open>clock i\<close> is the value of
  \<^verbatim>\<open>new Date()\<close> while record \<open>i\<close> of a batch is normalized (and \<open>clock n\<close>, for a
  batch of \<open>n\<close> records, in the filter that follows); \<open>random i k\<close> is the result of the
  \<open>k\<close>-th call of \<^verbatim>\<open>Math.random()\<close> made for record \<open>i\<close>.
\<close>

record world =
  clock :: "nat \<Rightarrow> int"
  random :: "nat \<Rightarrow> nat \<Rightarrow> rat"

text \<open>
  \<^verbatim>\<open>new Date(v)\<close> for a value \<open>v\<close>: a string is parsed, a number is the time value
  itself (truncated, and invalid beyond 8.64e15), null is 0, a boolean 0 or 1,
  undefined is invalid and an object is converted to the string [object Object] first
  (an object as the cache files give it, with no \<^verbatim>\<open>toString\<close> or \<^verbatim>\<open>valueOf\<close> property of
  its own; one that has such a property is outside the model).
\<close>

definition timeClip :: "rat \<Rightarrow> int option" where
  "timeClip q =
     (if \<bar>q\<bar> \<le> 8640000000000000 then Some (if q < 0 then - \<lfloor>- q\<rfloor> else \<lfloor>q\<rfloor>) else None)"

fun newDate :: "js_runtime \<Rightarrow> js \<Rightarrow> int option" where
  "newDate rt (JStr s) = dateParse rt s"
| "newDate rt (JNum q) = timeClip q"
| "newDate rt JNull = Some 0"
| "newDate rt (JBool b) = Some (if b then 1 else 0)"
| "newDate rt JUndefined = None"
| "newDate rt (JObj kvs) = dateParse rt ''[object Object]''"

subsection \<open>An engine to run examples on\<close>

text \<open>
  The ECMAScript date-time string format \<^verbatim>\<open>YYYY-MM-DDTHH:mm:ss.sssZ\<close> with its shorter
  forms: a date alone is UTC, a date and time without offset is local time, and so is
  (in V8) the same with a space for the \<^verbatim>\<open>T\<close>. \<open>tz\<close> is the local zone's offset in
  minutes east of UTC. Strings of other forms are not covered and read as invalid.
\<close>

definition digitVal :: "char \<Rightarrow> int option" where
  "digitVal c = (let n = (of_char c :: int) in if 48 \<le> n \<and> n \<le> 57 then Some (n - 48) else None)"

definition digitsVal :: "string \<Rightarrow> int option" where
  "digitsVal cs =
     (if cs = [] then None
      else foldl (\<lambda>acc c. case (acc, digitVal c) of (Some a, Some d) \<Rightarrow> Some (10 * a + d) | _ \<Rightarrow> None)
             (Some 0) cs)"

definition isLeapYear :: "int \<Rightarrow> bool" where
  "isLeapYear y = (y mod 4 = 0 \<and> (y mod 100 \<noteq> 0 \<or> y mod 400 = 0))"

definition daysInMonth :: "int \<Rightarrow> int \<Rightarrow> int" where
  "daysInMonth y m =
     (if m = 2 then (if isLeapYear y then 29 else 28)
      else if m \<in> {4, 6, 9, 11} then 30 else 31)"

definition daysFromCivil :: "int \<Rightarrow> int \<Rightarrow> int \<Rightarrow> int" where
  "daysFromCivil y m d =
     (let y' = (if m \<le> 2 then y - 1 else y);
          era = y' div 400;
          yoe = y' - era * 400;
          doy = (153 * (if m > 2 then m - 3 else m + 9) + 2) div 5 + d - 1;
          doe = yoe * 365 + yoe div 4 - yoe div 100 + doy
      in era * 146097 + doe - 719468)"

definition civilFromDays :: "int \<Rightarrow> int \<times> int \<times> int" where
  "civilFromDays z0 =
     (let z = z0 + 719468;
          era = z div 146097;
          doe = z - era * 146097;
          yoe = (doe - doe div 1460 + doe div 36524 - doe div 146096) div 365;
          doy = doe - (365 * yoe + yoe div 4 - yoe div 100);
          mp = (5 * doy + 2) div 153;
          d = doy - (153 * mp + 2) div 5 + 1;
          m = (if mp < 10 then mp + 3 else mp - 9);
          y = yoe + era * 400 + (if m \<le> 2 then 1 else 0)
      in (y, m, d))"

definition parseDate :: "string \<Rightarrow> int option" where
  "parseDate d =
     (if length d = 10 \<and> d ! 4 = CHR ''-'' \<and> d ! 7 = CHR ''-'' then
        (case (digitsVal (take 4 d), digitsVal (take 2 (drop 5 d)), digitsVal (drop 8 d)) of
           (Some y, Some m, Some dd) \<Rightarrow>
             if 1 \<le> m \<and> m \<le> 12 \<and> 1 \<le> dd \<and> dd \<le> daysInMonth y m
             then Some (daysFromCivil y m dd) else None
         | _ \<Rightarrow> None)
      else None)"

definition parseClock :: "string \<Rightarrow> int option" where
  "parseClock t =
     (let n = length t in
      if (n = 5 \<or> n = 8 \<or> n = 12) \<and> t ! 2 = CHR '':''
         \<and> (n \<ge> 8 \<longrightarrow> t ! 5 = CHR '':'') \<and> (n = 12 \<longrightarrow> t ! 8 = CHR ''.'') then
        (case (digitsVal (take 2 t), digitsVal (take 2 (drop 3 t)),
               if n \<ge> 8 then digitsVal (take 2 (drop 6 t)) else Some 0,
               if n = 12 then digitsVal (drop 9 t) else Some 0) of
           (Some h, Some mi, Some s, Some ms) \<Rightarrow>
             if h \<le> 23 \<and> mi \<le> 59 \<and> s \<le> 59
             then Some (((h * 60 + mi) * 60 + s) * 1000 + ms) else None
         | _ \<Rightarrow> None)
      else None)"

definition parseZone :: "int \<Rightarrow> string \<Rightarrow> int option" where
  "parseZone tz z =
     (if z = [] then Some tz
      else if z = ''Z'' then Some 0
      else if length z = 6 \<and> (hd z = CHR ''+'' \<or> hd z = CHR ''-'') \<and> z ! 3 = CHR '':'' then
        (case (digitsVal (take 2 (drop 1 z)), digitsVal (drop 4 z)) of
           (Some h, Some m) \<Rightarrow>
             if h \<le> 23 \<and> m \<le> 59
             then Some ((if hd z = CHR ''-'' then -1 else 1) * (h * 60 + m)) else None
         | _ \<Rightarrow> None)
      else None)"

definition isoDateParse :: "int \<Rightarrow> string \<Rightarrow> int option" where
  "isoDateParse tz s =
     (case parseDate (take 10 s) of
        None \<Rightarrow> None
      | Some days \<Rightarrow>
          (let r = drop 10 s in
           if r = [] then Some (days * 86400000)
           else if hd r = CHR ''T'' \<or> hd r = CHR '' '' then
             (let isZoneStart = (\<lambda>c. c = CHR ''Z'' \<or> c = CHR ''+'' \<or> c = CHR ''-'');
                  clk = takeWhile (\<lambda>c. \<not> isZoneStart c) (tl r);
                  zone = dropWhile (\<lambda>c. \<not> isZoneStart c) (tl r)
              in case (parseClock clk, parseZone tz zone) of
                   (Some ms, Some off) \<Rightarrow> Some (days * 86400000 + ms - off * 60000)
                 | _ \<Rightarrow> None)
           else None))"

definition digitChar :: "int \<Rightarrow> char" where
  "digitChar n = char_of (48 + n mod 10)"

definition padded2 :: "int \<Rightarrow> string" where
  "padded2 n = [digitChar (n div 10), digitChar n]"

definition padded3 :: "int \<Rightarrow> string" where
  "padded3 n = digitChar (n div 100) # padded2 n"

definition padded4 :: "int \<Rightarrow> string" where
  "padded4 n = digitChar (n div 1000) # padded3 n"

definition padded6 :: "int \<Rightarrow> string" where
  "padded6 n = digitChar (n div 100000) # digitChar (n div 10000) # padded4 n"

function decimal :: "int \<Rightarrow> string" where
  "decimal n = (if n < 10 then [digitChar n] else decimal (n div 10) @ [digitChar n])"
  by pat_completeness auto
termination
  by (relation "measure nat") auto

declare decimal.simps [simp del]

definition isoString :: "int \<Rightarrow> string" where
  "isoString t =
     (let days = t div 86400000;
          ms = t mod 86400000;
          (y, m, d) = civilFromDays days;
          year = (if 0 \<le> y \<and> y \<le> 9999 then padded4 y
                  else (if y < 0 then ''-'' else ''+'') @ padded6 \<bar>y\<bar>)
      in year @ ''-'' @ padded2 m @ ''-'' @ padded2 d @ ''T''
         @ padded2 (ms div 3600000) @ '':'' @ padded2 (ms div 60000 mod 60) @ '':''
         @ padded2 (ms div 1000 mod 60) @ ''.'' @ padded3 (ms mod 1000) @ ''Z'')"

text \<open>Integral numbers print in decimal; this engine does not cover the others.\<close>

definition integerString :: "rat \<Rightarrow> string" where
  "integerString q =
     (if q = of_int \<lfloor>q\<rfloor> then (if q < 0 then ''-'' else []) @ decimal \<bar>\<lfloor>q\<rfloor>\<bar> else [])"

definition node :: "int \<Rightarrow> js_runtime" where
  "node tz = \<lparr> dateParse = isoDateParse tz, toISOString = isoString, numberToString = integerString \<rparr>"

section \<open>The unified match utilities (lib/leagues/utils.ts)\<close>

definition MINUTES_IN_MS :: int where "MINUTES_IN_MS = 60 * 1000"
definition MATCH_DURATION_MS :: int where "MATCH_DURATION_MS = 105 * MINUTES_IN_MS"
definition GRACE_PERIOD_MS :: int where "GRACE_PERIOD_MS = 120 * MINUTES_IN_MS"

datatype utils_status = U_LIVE | U_SCHEDULED | U_FINISHED

text \<open>
  \<open>since\<close> is \<^verbatim>\<open>now - kickoff\<close>, NaN (\<open>None\<close>) when the kickoff string does not parse.
  The optional \<open>cacheStatus\<close> is \<open>None\<close> when absent.
\<close>

definition int_less :: "int option \<Rightarrow> int \<Rightarrow> bool" where
  "int_less x b = (case x of None \<Rightarrow> False | Some v \<Rightarrow> v < b)"

definition calculateMatchStatus :: "js_runtime \<Rightarrow> int \<Rightarrow> string \<Rightarrow> string option \<Rightarrow> utils_status" where
  "calculateMatchStatus rt now kickoffTime cacheStatus =
     (let kickoff = dateParse rt kickoffTime;
          timeSinceKickoff = map_option (\<lambda>k. now - k) kickoff;
          code = (case cacheStatus of None \<Rightarrow> [] | Some c \<Rightarrow> toUpperCase c)
      in if int_less timeSinceKickoff 0 then U_SCHEDULED
         else if code \<in> {''FT'', ''AET'', ''PEN''} then U_FINISHED
         else if code \<in> {''LIVE'', ''1H'', ''HT'', ''2H''} then U_LIVE
         else if int_less timeSinceKickoff MATCH_DURATION_MS then U_LIVE
         else if int_less timeSinceKickoff GRACE_PERIOD_MS then U_FINISHED
         else U_FINISHED)"


text \<open>The interfaces \<^verbatim>\<open>CachedMatch\<close>, \<^verbatim>\<open>LeagueConfig\<close> and \<^verbatim>\<open>Match\<close> (without its optional odds).\<close>

record cached_match =
  fixture_id :: int
  fixture_date :: string
  fixture_timestamp :: int
  fixture_status_short :: string
  teams_home_name :: string
  teams_away_name :: string

record league_config =
  config_id :: string
  config_name :: string
  matchesPerRound :: int
  seasonStartDate :: string

record umatch =
  id_u :: int
  homeTeam_u :: string
  awayTeam_u :: string
  kickoffTime_u :: string
  status_u :: utils_status
  round_u :: int

text \<open>\<^verbatim>\<open>xs.slice(lo, hi)\<close>: negative indices count from the end, all are clamped to the array.\<close>

definition slice :: "'a list \<Rightarrow> int \<Rightarrow> int \<Rightarrow> 'a list" where
  "slice xs lo hi =
     (let n = int (length xs);
          a = (if lo < 0 then max (n + lo) 0 else min lo n);
          b = (if hi < 0 then max (n + hi) 0 else min hi n)
      in take (nat (b - a)) (drop (nat a) xs))"

text \<open>
  The grouping loop \<^verbatim>\<open>for (let i = 0; i < matches.length; i += config.matchesPerRound)\<close>.
  It does not end when \<open>matchesPerRound\<close> is not positive and there is a match; not
  returning is \<open>None\<close>.
\<close>

partial_function (option) groupRounds ::
    "cached_match list \<Rightarrow> int \<Rightarrow> int \<Rightarrow> cached_match list list \<Rightarrow> cached_match list list option" where
  "groupRounds matches perRound i rounds =
     (if i < int (length matches)
      then groupRounds matches perRound (i + perRound) (rounds @ [slice matches i (i + perRound)])
      else Some rounds)"

text \<open>The search loop over \<open>roundIndex\<close>; \<open>None\<close> when it falls through.\<close>

fun findCurrentRound :: "js_runtime \<Rightarrow> int \<Rightarrow> cached_match list list \<Rightarrow> int \<Rightarrow> int option" where
  "findCurrentRound rt now [] roundIndex = None"
| "findCurrentRound rt now (roundMatches # rest) roundIndex =
     (if roundMatches = [] then findCurrentRound rt now rest (roundIndex + 1)
      else let lastMatch = last roundMatches;
               timeSinceLastKickoff = map_option (\<lambda>k. now - k) (dateParse rt (fixture_date lastMatch))
           in if int_less timeSinceLastKickoff GRACE_PERIOD_MS then Some (roundIndex + 1)
              else findCurrentRound rt now rest (roundIndex + 1))"

definition calculateCurrentRound ::
    "js_runtime \<Rightarrow> int \<Rightarrow> cached_match list \<Rightarrow> league_config \<Rightarrow> int option" where
  "calculateCurrentRound rt now matches config =
     (case groupRounds matches (matchesPerRound config) 0 [] of
        None \<Rightarrow> None
      | Some rounds \<Rightarrow>
          Some (case findCurrentRound rt now rounds 0 of
                  Some r \<Rightarrow> r
                | None \<Rightarrow> int (length rounds)))"

definition filterCurrentRoundMatches ::
    "cached_match list \<Rightarrow> int \<Rightarrow> league_config \<Rightarrow> cached_match list" where
  "filterCurrentRoundMatches matches currentRound config =
     (let startIndex = (currentRound - 1) * matchesPerRound config;
          endIndex = startIndex + matchesPerRound config
      in slice matches startIndex endIndex)"

definition filterRelevantMatches_utils :: "js_runtime \<Rightarrow> int \<Rightarrow> umatch list \<Rightarrow> umatch list" where
  "filterRelevantMatches_utils rt now matches =
     filter (\<lambda>m.
        let timeSinceKickoff = map_option (\<lambda>k. now - k) (dateParse rt (kickoffTime_u m))
        in if status_u m = U_SCHEDULED then True
           else if status_u m = U_LIVE then True
           else if status_u m = U_FINISHED \<and> int_less timeSinceKickoff GRACE_PERIOD_MS then True
           else False) matches"

section \<open>The match normalizer (lib/match-normalizer.ts)\<close>

datatype match_status = SCHEDULED | LIVE | FINISHED | CANCELLED

fun statusName :: "match_status \<Rightarrow> string" where
  "statusName SCHEDULED = ''SCHEDULED''"
| "statusName LIVE = ''LIVE''"
| "statusName FINISHED = ''FINISHED''"
| "statusName CANCELLED = ''CANCELLED''"

definition generateShortName :: "string \<Rightarrow> string" where
  "generateShortName name = toUpperCase (take 3 (concat (map (take 1) (split_space name))))"

definition generateTeamId :: "string \<Rightarrow> string" where
  "generateTeamId name = toLowerCase (replace_ws name)"

text \<open>
  \<open>minutesElapsed\<close> is \<^verbatim>\<open>(now.getTime() - kickoffTime.getTime()) / (1000 * 60)\<close>; with an
  Invalid Date it is NaN (\<open>None\<close>), and every comparison with NaN is false.
\<close>

definition minutesElapsed :: "int \<Rightarrow> int option \<Rightarrow> rat option" where
  "minutesElapsed now kickoffTime = map_option (\<lambda>k. of_int (now - k) / (1000 * 60)) kickoffTime"

definition nan_ge :: "rat option \<Rightarrow> rat \<Rightarrow> bool" where
  "nan_ge x b = (case x of None \<Rightarrow> False | Some v \<Rightarrow> v \<ge> b)"

definition nan_less :: "rat option \<Rightarrow> rat \<Rightarrow> bool" where
  "nan_less x b = (case x of None \<Rightarrow> False | Some v \<Rightarrow> v < b)"

text \<open>\<open>now\<close> is what \<^verbatim>\<open>new Date()\<close> returns inside the function.\<close>

definition determineStatus :: "int \<Rightarrow> int option \<Rightarrow> js \<Rightarrow> js \<Rightarrow> js \<Rightarrow> js \<Rightarrow> match_status" where
  "determineStatus now kickoffTime finished started cancelled ongoing =
     (if truthy cancelled then CANCELLED
      else if truthy finished then FINISHED
      else (let el = minutesElapsed now kickoffTime in
            if truthy started \<or> (nan_ge el 0 \<and> nan_less el 120) then LIVE
            else if truthy ongoing then LIVE
            else SCHEDULED))"

text \<open>
  \<^verbatim>\<open>timeString.includes(...)\<close> is a TypeError unless \<open>timeString\<close> is a string
  (JSON data holds no functions). The result is the Date, \<open>None\<close> when invalid.
\<close>

definition parseUTCTime :: "js_runtime \<Rightarrow> js \<Rightarrow> error + int option" where
  "parseUTCTime rt timeString =
     (case timeString of
        JStr s \<Rightarrow>
          Inr (if CHR ''T'' \<in> set s \<and> CHR ''Z'' \<notin> set s \<and> CHR ''+'' \<notin> set s
               then dateParse rt (s @ ''Z'')
               else dateParse rt s)
      | _ \<Rightarrow> Inl TypeError)"

subsection \<open>LEAGUE_CONFIGS\<close>

definition leagueConfigOf :: "string \<Rightarrow> string \<Rightarrow> string \<Rightarrow> string \<Rightarrow> js" where
  "leagueConfigOf i n c l =
     JObj [(''id'', JStr i), (''name'', JStr n), (''country'', JStr c), (''logoUrl'', JStr l)]"

definition AUSTRIAN_BUNDESLIGA :: js where
  "AUSTRIAN_BUNDESLIGA = leagueConfigOf ''OEBL1'' (CHR 0xD6 # ''sterreichische Bundesliga'')
     ''Austria'' ''/logos/austrian-bundesliga.png''"

definition AUSTRIAN_2LIGA :: js where
  "AUSTRIAN_2LIGA = leagueConfigOf ''OEBL2'' (CHR 0xD6 # ''sterreichische 2. Liga'')
     ''Austria'' ''/logos/austrian-2liga.png''"

definition GERMAN_BUNDESLIGA :: js where
  "GERMAN_BUNDESLIGA = leagueConfigOf ''DE1'' ''Deutsche Bundesliga'' ''Germany'' ''/logos/bundesliga.png''"

definition GERMAN_2BUNDESLIGA :: js where
  "GERMAN_2BUNDESLIGA = leagueConfigOf ''DE2'' ''Deutsche 2. Bundesliga'' ''Germany'' ''/logos/2bundesliga.png''"

definition PREMIER_LEAGUE :: js where
  "PREMIER_LEAGUE = leagueConfigOf ''EPL'' ''Premier League'' ''England'' ''/logos/premier-league.png''"

text \<open>A default parameter value replaces undefined only.\<close>

definition defaultParam :: "js \<Rightarrow> js \<Rightarrow> js" where
  "defaultParam v d = (if v = JUndefined then d else v)"

subsection \<open>NormalizedMatch\<close>

text \<open>
  The interface \<^verbatim>\<open>NormalizedMatch\<close>. Its types are erased at run time and several fields
  are copied from the raw record, so each field holds a value; a property that the
  object literal does not set is undefined.
\<close>

record normalized_match =
  match_id :: js
  league :: js
  homeTeam :: js
  awayTeam :: js
  kickoffTime :: js
  status :: js
  round_label :: js
  season :: js
  bestOdds :: js
  pageUrl :: js
  liveTime :: js

text \<open>
  The team literal of the two object-style normalizers, for the raw team \<open>t\<close>
  (\<^verbatim>\<open>match.homeTeam\<close>, \<^verbatim>\<open>match.home\<close>, ...). \<^verbatim>\<open>t?.name || ''\<close> is either the empty string
  or a truthy value, and \<^verbatim>\<open>split\<close> on a truthy value that is no string is a TypeError.
\<close>

definition teamOf :: "js \<Rightarrow> error + js" where
  "teamOf t =
     (let name = or_js (jsget t ''name'') (JStr []) in
      case name of
        JStr n \<Rightarrow>
          Inr (JObj [(''id'', or_js (jsget t ''id'') (JStr (generateTeamId n))),
                     (''name'', name),
                     (''shortName'', JStr (generateShortName n)),
                     (''logoUrl'', JNull),
                     (''score'', or_js (jsget t ''score'') JNull)])
      | _ \<Rightarrow> Inl TypeError)"

definition normalizeAustrianWeekendMatch ::
    "js_runtime \<Rightarrow> int \<Rightarrow> js \<Rightarrow> js \<Rightarrow> error + normalized_match" where
  "normalizeAustrianWeekendMatch rt now match leagueConfig =
     (if nullish match then Inl TypeError
      else case parseUTCTime rt (jsget match ''utcTime'') of
        Inl e \<Rightarrow> Inl e
      | Inr kickoffUTC \<Rightarrow>
         (let st = jsget match ''status'';
              status = determineStatus now kickoffUTC
                         (jsget st ''finished'') (jsget st ''started'') (jsget st ''cancelled'') JUndefined
          in case teamOf (jsget match ''homeTeam'') of
               Inl e \<Rightarrow> Inl e
             | Inr home \<Rightarrow>
                (case teamOf (jsget match ''awayTeam'') of
                   Inl e \<Rightarrow> Inl e
                 | Inr away \<Rightarrow>
                    (case kickoffUTC of
                       None \<Rightarrow> Inl RangeError
                     | Some k \<Rightarrow>
                         Inr \<lparr> match_id = jsget match ''id'',
                               league = defaultParam leagueConfig AUSTRIAN_BUNDESLIGA,
                               homeTeam = home,
                               awayTeam = away,
                               kickoffTime = JStr (toISOString rt k),
                               status = JStr (statusName status),
                               round_label = jsget match ''round'',
                               season = jsget match ''season'',
                               bestOdds = jsget match ''bestOdds'',
                               pageUrl = JUndefined,
                               liveTime = JUndefined \<rparr>))))"

definition normalizeGermanBundesligaMatch ::
    "js_runtime \<Rightarrow> int \<Rightarrow> js \<Rightarrow> js \<Rightarrow> js \<Rightarrow> error + normalized_match" where
  "normalizeGermanBundesligaMatch rt now match leagueConfig roundLabel =
     (if nullish match then Inl TypeError
      else let st = jsget match ''status'' in
        case parseUTCTime rt (jsget st ''utcTime'') of
          Inl e \<Rightarrow> Inl e
        | Inr kickoffUTC \<Rightarrow>
           (let status = determineStatus now kickoffUTC
                           (jsget st ''finished'') (jsget st ''started'') (jsget st ''cancelled'')
                           (jsget st ''ongoing'')
            in case teamOf (jsget match ''home'') of
                 Inl e \<Rightarrow> Inl e
               | Inr home \<Rightarrow>
                  (case teamOf (jsget match ''away'') of
                     Inl e \<Rightarrow> Inl e
                   | Inr away \<Rightarrow>
                      (case kickoffUTC of
                         None \<Rightarrow> Inl RangeError
                       | Some k \<Rightarrow>
                           Inr \<lparr> match_id = jsget match ''id'',
                                 league = defaultParam leagueConfig GERMAN_BUNDESLIGA,
                                 homeTeam = home,
                                 awayTeam = away,
                                 kickoffTime = JStr (toISOString rt k),
                                 status = JStr (statusName status),
                                 round_label = or_js roundLabel (jsget match ''round''),
                                 season = or_js (jsget match ''season'') (JStr ''2024/25''),
                                 bestOdds = JUndefined,
                                 pageUrl = jsget match ''pageUrl'',
                                 liveTime = or_js (jsget (jsget st ''liveTime'') ''short'')
                                                  (jsget st ''liveTime'') \<rparr>))))"


text \<open>
  The Pinnacle normalizer. \<^verbatim>\<open>match.home?.replace(...).toLowerCase()\<close> inside the id
  template is the text undefined for a missing name; \<open>rnd k\<close> is the \<open>k\<close>-th result of
  \<^verbatim>\<open>Math.random()\<close>, called only for an odd that the money line lacks.
\<close>

definition toStringJS :: "js_runtime \<Rightarrow> js \<Rightarrow> string" where
  "toStringJS rt v =
     (case v of
        JUndefined \<Rightarrow> ''undefined''
      | JNull \<Rightarrow> ''null''
      | JBool b \<Rightarrow> (if b then ''true'' else ''false'')
      | JNum q \<Rightarrow> numberToString rt q
      | JStr s \<Rightarrow> s
      | JObj kvs \<Rightarrow> ''[object Object]'')"

definition slugInId :: "js \<Rightarrow> error + string" where
  "slugInId v =
     (if nullish v then Inr ''undefined''
      else case v of JStr s \<Rightarrow> Inr (toLowerCase (replace_ws s)) | _ \<Rightarrow> Inl TypeError)"

definition teamOfName :: "js \<Rightarrow> error + js" where
  "teamOfName v =
     (let name = or_js v (JStr []) in
      case name of
        JStr n \<Rightarrow>
          Inr (JObj [(''id'', JStr (generateTeamId n)),
                     (''name'', name),
                     (''shortName'', JStr (generateShortName n)),
                     (''logoUrl'', JNull)])
      | _ \<Rightarrow> Inl TypeError)"

definition oddsEntry :: "js \<Rightarrow> string \<Rightarrow> js" where
  "oddsEntry v bookmaker = JObj [(''odd'', v), (''bookmaker'', JStr bookmaker)]"

definition pinnacleBestOdds :: "(nat \<Rightarrow> rat) \<Rightarrow> js \<Rightarrow> js" where
  "pinnacleBestOdds rnd moneyLine =
     (let h = jsget moneyLine ''home'';
          d = jsget moneyLine ''draw'';
          a = jsget moneyLine ''away'';
          k0 = (0::nat);
          oh = (if truthy h then h else JNum (185 / 100 + rnd k0 * (15 / 10)));
          k1 = (if truthy h then k0 else Suc k0);
          od = (if truthy d then d else JNum (310 / 100 + rnd k1 * (8 / 10)));
          k2 = (if truthy d then k1 else Suc k1);
          oa = (if truthy a then a else JNum (275 / 100 + rnd k2 * (12 / 10)))
      in JObj [(''home'', oddsEntry oh ''bet365''),
               (''draw'', oddsEntry od ''bwin''),
               (''away'', oddsEntry oa ''tipico'')])"

definition normalizePinnacleMatch ::
    "js_runtime \<Rightarrow> int \<Rightarrow> (nat \<Rightarrow> rat) \<Rightarrow> js \<Rightarrow> js \<Rightarrow> js \<Rightarrow> error + normalized_match" where
  "normalizePinnacleMatch rt now rnd match leagueConfig roundLabel =
     (if nullish match then Inl TypeError
      else case parseUTCTime rt (jsget match ''starts'') of
        Inl e \<Rightarrow> Inl e
      | Inr kickoffUTC \<Rightarrow>
         (let el = minutesElapsed now kickoffUTC;
              st = (if nan_ge el 0 \<and> nan_less el 120 then LIVE
                    else if nan_ge el 120 then FINISHED else SCHEDULED);
              moneyLine = or_js (jsget (jsget (jsget match ''periods'') ''num_0'') ''money_line'') (JObj []);
              odds = pinnacleBestOdds rnd moneyLine
          in case (slugInId (jsget match ''home''), slugInId (jsget match ''away'')) of
               (Inr hs, Inr as) \<Rightarrow>
                 (case (teamOfName (jsget match ''home''), teamOfName (jsget match ''away'')) of
                    (Inr home, Inr away) \<Rightarrow>
                      (case kickoffUTC of
                         None \<Rightarrow> Inl RangeError
                       | Some k \<Rightarrow>
                           Inr \<lparr> match_id = JStr (hs @ ''-vs-'' @ as @ ''-''
                                                   @ toStringJS rt (jsget match ''event_id'')),
                                 league = defaultParam leagueConfig AUSTRIAN_2LIGA,
                                 homeTeam = home,
                                 awayTeam = away,
                                 kickoffTime = JStr (toISOString rt k),
                                 status = JStr (statusName st),
                                 round_label = or_js roundLabel (JStr ''12. Spieltag''),
                                 season = JStr ''2024/25'',
                                 bestOdds = odds,
                                 pageUrl = JUndefined,
                                 liveTime = JUndefined \<rparr>)
                  | _ \<Rightarrow> Inl TypeError)
             | _ \<Rightarrow> Inl TypeError))"

definition normalizeFormattedMatch :: "js \<Rightarrow> error + normalized_match" where
  "normalizeFormattedMatch match =
     (if nullish match then Inl TypeError
      else Inr \<lparr> match_id = jsget match ''id'',
                 league = jsget match ''league'',
                 homeTeam = jsget match ''homeTeam'',
                 awayTeam = jsget match ''awayTeam'',
                 kickoffTime = jsget match ''kickoffTime'',
                 status = jsget match ''status'',
                 round_label = jsget match ''round'',
                 season = jsget match ''season'',
                 bestOdds = jsget match ''bestOdds'',
                 pageUrl = jsget match ''pageUrl'',
                 liveTime = jsget match ''liveTime'' \<rparr>)"

definition filterRelevantMatches :: "js_runtime \<Rightarrow> int \<Rightarrow> normalized_match list \<Rightarrow> normalized_match list" where
  "filterRelevantMatches rt now matches =
     filter (\<lambda>m. nan_less (minutesElapsed now (newDate rt (kickoffTime m))) 120) matches"

text \<open>
  The comparator of \<open>sortMatches\<close>; \<open>None\<close> is NaN, which \<^verbatim>\<open>Array.prototype.sort\<close> reads
  as 0. The sort is stable; it is modelled by insertion, the element going before the
  first one it is not greater than.
\<close>

definition compareMatches :: "js_runtime \<Rightarrow> normalized_match \<Rightarrow> normalized_match \<Rightarrow> int option" where
  "compareMatches rt a b =
     (if status a = JStr ''LIVE'' \<and> status b \<noteq> JStr ''LIVE'' then Some (-1)
      else if status a \<noteq> JStr ''LIVE'' \<and> status b = JStr ''LIVE'' then Some 1
      else (case (newDate rt (kickoffTime a), newDate rt (kickoffTime b)) of
              (Some x, Some y) \<Rightarrow> Some (x - y)
            | _ \<Rightarrow> None))"

fun insertMatch :: "js_runtime \<Rightarrow> normalized_match \<Rightarrow> normalized_match list \<Rightarrow> normalized_match list" where
  "insertMatch rt x [] = [x]"
| "insertMatch rt x (y # ys) =
     (if (case compareMatches rt x y of None \<Rightarrow> True | Some c \<Rightarrow> c \<le> 0) then x # y # ys
      else y # insertMatch rt x ys)"

definition sortMatches :: "js_runtime \<Rightarrow> normalized_match list \<Rightarrow> normalized_match list" where
  "sortMatches rt matches = foldr (insertMatch rt) matches []"

text \<open>\<^verbatim>\<open>matches.map(f)\<close> with a callback that may throw: the first exception ends the call.\<close>

fun mapThrowing :: "(nat \<Rightarrow> js \<Rightarrow> error + 'b) \<Rightarrow> nat \<Rightarrow> js list \<Rightarrow> error + 'b list" where
  "mapThrowing f i [] = Inr []"
| "mapThrowing f i (x # xs) =
     (case f i x of
        Inl e \<Rightarrow> Inl e
      | Inr y \<Rightarrow> (case mapThrowing f (Suc i) xs of Inl e \<Rightarrow> Inl e | Inr ys \<Rightarrow> Inr (y # ys)))"

text \<open>
  The dispatcher. The first component of the result is what it writes with
  \<^verbatim>\<open>console.warn\<close>, the second the returned array or the exception thrown.
\<close>

definition normalizeMatches ::
    "js_runtime \<Rightarrow> world \<Rightarrow> js list \<Rightarrow> string \<Rightarrow> js \<Rightarrow> js
       \<Rightarrow> string list \<times> (error + normalized_match list)" where
  "normalizeMatches rt w matches source leagueConfig roundLabel =
     (let (warnings, normalizedMatches) =
        (if source = ''austrian-weekend'' then
           ([], mapThrowing (\<lambda>i m. normalizeAustrianWeekendMatch rt (clock w i) m leagueConfig) 0 matches)
         else if source = ''german-bundesliga'' then
           ([], mapThrowing (\<lambda>i m. normalizeGermanBundesligaMatch rt (clock w i) m
                                      (or_js leagueConfig GERMAN_BUNDESLIGA) roundLabel) 0 matches)
         else if source = ''german-2bundesliga'' then
           ([], mapThrowing (\<lambda>i m. normalizeGermanBundesligaMatch rt (clock w i) m
                                      (or_js leagueConfig GERMAN_2BUNDESLIGA) roundLabel) 0 matches)
         else if source = ''premier-league'' then
           ([], mapThrowing (\<lambda>i m. normalizeGermanBundesligaMatch rt (clock w i) m
                                      (or_js leagueConfig PREMIER_LEAGUE) roundLabel) 0 matches)
         else if source = ''pinnacle'' then
           ([], mapThrowing (\<lambda>i m. normalizePinnacleMatch rt (clock w i) (random w i) m
                                      leagueConfig roundLabel) 0 matches)
         else if source = ''formatted'' then
           ([], mapThrowing (\<lambda>i. normalizeFormattedMatch) 0 matches)
         else
           ([''Unknown match source format: '' @ source],
            mapThrowing (\<lambda>i. normalizeFormattedMatch) 0 matches))
      in (warnings,
          case normalizedMatches of
            Inl e \<Rightarrow> Inl e
          | Inr ms \<Rightarrow> Inr (sortMatches rt (filterRelevantMatches rt (clock w (length matches)) ms))))"

section \<open>The German Bundesliga route (app/api/matches/bundesliga/route.ts)\<close>

text \<open>
  The route selects its round inline, over the array \<^verbatim>\<open>cacheData.response.matches\<close> of the
  cache file; \<open>now\<close> is the time value of its \<^verbatim>\<open>new Date()\<close>.
\<close>

definition matchesPerRound_route :: int where "matchesPerRound_route = 9"

text \<open>\<^verbatim>\<open>getMatchesForRound\<close>, over the cache entries \<open>allMatches\<close>.\<close>

definition getMatchesForRound :: "js list \<Rightarrow> int \<Rightarrow> js list" where
  "getMatchesForRound allMatches roundNumber =
     (if roundNumber = 6 then slice allMatches 44 54
      else if roundNumber = 7 then slice allMatches 54 63
      else let startIndex = (roundNumber - 6) * matchesPerRound_route + 44;
               endIndex = startIndex + matchesPerRound_route
           in slice allMatches startIndex endIndex)"

text \<open>
  \<^verbatim>\<open>matchTime > lastGameTime\<close> on two Date objects compares their time values, and is
  false when one of them is NaN.
\<close>

definition date_greater :: "int option \<Rightarrow> int option \<Rightarrow> bool" where
  "date_greater a b = (case (a, b) of (Some x, Some y) \<Rightarrow> x > y | _ \<Rightarrow> False)"

text \<open>
  The inner loop \<^verbatim>\<open>for (const match of roundMatches)\<close>, from the value of
  \<open>lastGameTime\<close> so far (\<open>None\<close> is null, \<open>Some None\<close> an Invalid Date). Reading
  \<^verbatim>\<open>match.status.utcTime\<close> throws a TypeError when \<open>match\<close> or \<open>match.status\<close> is
  undefined or null.
\<close>

fun lastGameTimeOf :: "js_runtime \<Rightarrow> int option option \<Rightarrow> js list \<Rightarrow> error + int option option" where
  "lastGameTimeOf rt lastGameTime [] = Inr lastGameTime"
| "lastGameTimeOf rt lastGameTime (match # rest) =
     (if nullish match \<or> nullish (jsget match ''status'') then Inl TypeError
      else let matchTime = newDate rt (jsget (jsget match ''status'') ''utcTime'')
           in lastGameTimeOf rt
                (case lastGameTime of
                   None \<Rightarrow> Some matchTime
                 | Some l \<Rightarrow> if date_greater matchTime l then Some matchTime else lastGameTime)
                rest)"

text \<open>
  The loop \<^verbatim>\<open>while (currentRound <= 34)\<close>, from a value of \<open>currentRound\<close>; its result is
  the value of \<open>currentRound\<close> after the loop. The log message of each round calls
  \<^verbatim>\<open>lastGameTime.toISOString()\<close>, which throws a RangeError on an Invalid Date.
\<close>

function routeCurrentRound :: "js_runtime \<Rightarrow> int \<Rightarrow> js list \<Rightarrow> int \<Rightarrow> error + int" where
  "routeCurrentRound rt now allMatches currentRound =
     (if currentRound \<le> 34 then
        (let roundMatches = getMatchesForRound allMatches currentRound in
         if length roundMatches = 0 then Inr currentRound
         else case lastGameTimeOf rt None roundMatches of
                Inl e \<Rightarrow> Inl e
              | Inr None \<Rightarrow> Inr currentRound
              | Inr (Some lastGameTime) \<Rightarrow>
                  if lastGameTime = None then Inl RangeError
                  else if nan_less (minutesElapsed now lastGameTime) 120 then Inr currentRound
                  else routeCurrentRound rt now allMatches (currentRound + 1))
      else Inr currentRound)"
  by pat_completeness auto
termination
  by (relation "measure (\<lambda>(rt, now, allMatches, currentRound). nat (35 - currentRound))") auto

declare routeCurrentRound.simps [simp del]

text \<open>
  Lines 54 to 104 as a whole: the loop from round 6, then
  \<^verbatim>\<open>roundMatches = getMatchesForRound(currentRound)\<close>.
\<close>

definition routeRoundMatches :: "js_runtime \<Rightarrow> int \<Rightarrow> js list \<Rightarrow> error + int \<times> js list" where
  "routeRoundMatches rt now allMatches =
     (case routeCurrentRound rt now allMatches 6 of
        Inl e \<Rightarrow> Inl e
      | Inr currentRound \<Rightarrow> Inr (currentRound, getMatchesForRound allMatches currentRound))"

section \<open>Example records\<close>

text \<open>
  The fixture of the specification's scenarios, RB Salzburg against Rapid Wien kicking
  off at 2025-08-22T18:30:00Z (1755887400000 ms), as a Shape-A record, as a Shape-B
  record, as a sportsbook record and as an already normalized one.
\<close>

definition exampleA :: js where
  "exampleA = JObj [(''homeTeam'', JObj [(''name'', JStr ''RB Salzburg'')]),
                    (''awayTeam'', JObj [(''name'', JStr ''Rapid Wien'')]),
                    (''utcTime'', JStr ''2025-08-22T18:30:00Z''),
                    (''status'', JObj [(''finished'', JBool False), (''started'', JBool False)])]"

definition exampleB :: js where
  "exampleB = JObj [(''home'', JObj [(''name'', JStr ''RB Salzburg'')]),
                    (''away'', JObj [(''name'', JStr ''Rapid Wien'')]),
                    (''status'', JObj [(''utcTime'', JStr ''2025-08-22T18:30:00Z''),
                                       (''finished'', JBool False), (''started'', JBool False)])]"

definition examplePinnacle :: js where
  "examplePinnacle = JObj [(''event_id'', JNum 1612345),
                           (''home'', JStr ''RB Salzburg''),
                           (''away'', JStr ''Rapid Wien''),
                           (''starts'', JStr ''2025-08-22T18:30:00'')]"

definition exampleFormatted :: "string \<Rightarrow> string \<Rightarrow> js" where
  "exampleFormatted kickoff st =
     JObj [(''id'', JStr ''m1''),
           (''league'', AUSTRIAN_BUNDESLIGA),
           (''homeTeam'', JObj [(''id'', JStr ''rb-salzburg''), (''name'', JStr ''RB Salzburg''),
                                (''shortName'', JStr ''RBS'')]),
           (''awayTeam'', JObj [(''id'', JStr ''rapid-wien''), (''name'', JStr ''Rapid Wien''),
                                (''shortName'', JStr ''RW'')]),
           (''kickoffTime'', JStr kickoff),
           (''status'', JStr st)]"

definition exampleNormalized :: "string \<Rightarrow> string \<Rightarrow> normalized_match" where
  "exampleNormalized kickoff st =
     \<lparr> match_id = JStr ''m1'', league = AUSTRIAN_BUNDESLIGA,
       homeTeam = JObj [(''id'', JStr ''rb-salzburg''), (''name'', JStr ''RB Salzburg''),
                        (''shortName'', JStr ''RBS'')],
       awayTeam = JObj [(''id'', JStr ''rapid-wien''), (''name'', JStr ''Rapid Wien''),
                        (''shortName'', JStr ''RW'')],
       kickoffTime = JStr kickoff, status = JStr st,
       round_label = JUndefined, season = JUndefined, bestOdds = JUndefined,
       pageUrl = JUndefined, liveTime = JUndefined \<rparr>"

definition exampleUtils :: "string \<Rightarrow> utils_status \<Rightarrow> umatch" where
  "exampleUtils kickoff st =
     \<lparr> id_u = 1, homeTeam_u = ''RB Salzburg'', awayTeam_u = ''Rapid Wien'',
       kickoffTime_u = kickoff, status_u = st, round_u = 4 \<rparr>"

text \<open>A wall clock that stands at \<open>t\<close> during a call, with all random draws \<open>r\<close>.\<close>

definition worldAt :: "int \<Rightarrow> rat \<Rightarrow> world" where
  "worldAt t r = \<lparr> clock = (\<lambda>i. t), random = (\<lambda>i k. r) \<rparr>"

text \<open>The sportsbook record with a full money line.\<close>

definition examplePinnacleOdds :: js where
  "examplePinnacleOdds = JObj [(''event_id'', JNum 1612345),
     (''home'', JStr ''RB Salzburg''),
     (''away'', JStr ''Rapid Wien''),
     (''starts'', JStr ''2025-08-22T18:30:00''),
     (''periods'', JObj [(''num_0'', JObj [(''money_line'',
        JObj [(''home'', JNum (21 / 10)), (''draw'', JNum (34 / 10)), (''away'', JNum (31 / 10))])])])]"

text \<open>
  A Shape-A record with Latin-1 names, and records of the three raw shapes whose kickoff
  string is no timestamp.
\<close>

definition exampleLatin1 :: js where
  "exampleLatin1 = JObj [(''homeTeam'', JObj [(''name'', JStr (CHR 0xF6 # ''sterreich wien''))]),
                         (''awayTeam'', JObj [(''name'', JStr (CHR 0xD6 # ''sterreich Wien''))]),
                         (''utcTime'', JStr ''2025-08-22T18:30:00Z'')]"

definition exampleBadA :: js where
  "exampleBadA = JObj [(''homeTeam'', JObj [(''name'', JStr ''LASK'')]),
                       (''awayTeam'', JObj [(''name'', JStr ''Sturm Graz'')]),
                       (''utcTime'', JStr ''postponed''),
                       (''status'', JObj [(''finished'', JBool False), (''started'', JBool False)])]"

definition exampleBadB :: js where
  "exampleBadB = JObj [(''home'', JObj [(''name'', JStr ''LASK'')]),
                       (''away'', JObj [(''name'', JStr ''Sturm Graz'')]),
                       (''status'', JObj [(''utcTime'', JStr ''postponed'')])]"

definition exampleBadPinnacle :: js where
  "exampleBadPinnacle = JObj [(''event_id'', JNum 1612346), (''home'', JStr ''LASK''),
                              (''away'', JStr ''Sturm Graz''), (''starts'', JStr ''postponed'')]"

text \<open>
  The fixture once more with upstream ids, a score, a round and a season, the two
  records writing the same kickoff instant in two ways.
\<close>

definition exampleA2 :: js where
  "exampleA2 = JObj [(''id'', JStr ''4193452''),
                     (''homeTeam'', JObj [(''id'', JStr ''10013''), (''name'', JStr ''RB Salzburg''),
                                          (''score'', JNum 2)]),
                     (''awayTeam'', JObj [(''name'', JStr ''Rapid Wien'')]),
                     (''utcTime'', JStr ''2025-08-22T18:30:00Z''),
                     (''status'', JObj [(''finished'', JBool False), (''started'', JBool True)]),
                     (''round'', JStr ''4. Runde''),
                     (''season'', JStr ''2025/26'')]"

definition exampleB2 :: js where
  "exampleB2 = JObj [(''id'', JStr ''4193452''),
                     (''home'', JObj [(''id'', JStr ''10013''), (''name'', JStr ''RB Salzburg''),
                                      (''score'', JNum 2)]),
                     (''away'', JObj [(''name'', JStr ''Rapid Wien'')]),
                     (''status'', JObj [(''utcTime'', JStr ''2025-08-22T18:30:00.000Z''),
                                        (''finished'', JBool False), (''started'', JBool True)]),
                     (''round'', JStr ''4. Runde''),
                     (''season'', JStr ''2025/26'')]"

text \<open>Five cached fixtures in kickoff order, for a league of two matches a round.\<close>

definition exampleCached :: "int \<Rightarrow> string \<Rightarrow> cached_match" where
  "exampleCached i d =
     \<lparr> fixture_id = i, fixture_date = d, fixture_timestamp = 0, fixture_status_short = ''NS'',
       teams_home_name = ''RB Salzburg'', teams_away_name = ''Rapid Wien'' \<rparr>"

definition exampleSeason :: "cached_match list" where
  "exampleSeason = [exampleCached 1 ''2025-08-16T15:00:00Z'', exampleCached 2 ''2025-08-17T15:00:00Z'',
                    exampleCached 3 ''2025-08-22T18:30:00Z'', exampleCached 4 ''2025-08-23T15:00:00Z'',
                    exampleCached 5 ''2025-08-30T15:00:00Z'']"

definition exampleLeague :: league_config where
  "exampleLeague = \<lparr> config_id = ''oesterreichische-bundesliga'',
                     config_name = CHR 0xD6 # ''sterreichische Bundesliga'',
                     matchesPerRound = 2, seasonStartDate = ''2025-08-01'' \<rparr>"

text \<open>
  A cache of 56 entries in kickoff order: entries 0 to 43 kick off on 16 August 2025,
  entries 44 to 53 on 22 August, the last two on 29 and 30 August.
\<close>

definition exampleEntry :: "int \<Rightarrow> string \<Rightarrow> js" where
  "exampleEntry i d = JObj [(''id'', JNum (of_int i)), (''status'', JObj [(''utcTime'', JStr d)])]"

definition exampleCache :: "js list" where
  "exampleCache = map (\<lambda>i. exampleEntry i ''2025-08-16T15:00:00Z'') [0..43]
                  @ map (\<lambda>i. exampleEntry i ''2025-08-22T18:30:00Z'') [44..53]
                  @ [exampleEntry 54 ''2025-08-29T18:30:00Z'', exampleEntry 55 ''2025-08-30T15:00:00Z'']"

section \<open>Notions used in the statements\<close>


text \<open>Whether a sportsbook record carries all three money-line odds.\<close>

definition moneyLineComplete :: "js \<Rightarrow> bool" where
  "moneyLineComplete match =
     (let moneyLine = or_js (jsget (jsget (jsget match ''periods'') ''num_0'') ''money_line'') (JObj [])
      in truthy (jsget moneyLine ''home'') \<and> truthy (jsget moneyLine ''draw'')
         \<and> truthy (jsget moneyLine ''away''))"

definition supportedSources :: "string set" where
  "supportedSources = {''austrian-weekend'', ''german-bundesliga'', ''german-2bundesliga'',
                       ''premier-league'', ''pinnacle'', ''formatted''}"

subsection \<open>The specification's words\<close>

text \<open>
  The short name of the specification: the initials of each word in the name,
  uppercased, truncated to 3 characters.
\<close>

definition initialsOfWords :: "string \<Rightarrow> string" where
  "initialsOfWords name = map hd (filter (\<lambda>word. word \<noteq> []) (split_space name))"

definition shortNameSpec :: "string \<Rightarrow> string" where
  "shortNameSpec name = take 3 (toUpperCase (initialsOfWords name))"

text \<open>The slug of the specification: lowercase, spaces to hyphens.\<close>

definition slugSpec :: "string \<Rightarrow> string" where
  "slugSpec name = map (\<lambda>c. if c = CHR '' '' then CHR ''-'' else lowerChar c) name"

text \<open>A name whose only whitespace is single spaces between other characters.\<close>

fun singleSpaced :: "string \<Rightarrow> bool" where
  "singleSpaced [] = True"
| "singleSpaced [c] = (isWhitespace c \<longrightarrow> c = CHR '' '')"
| "singleSpaced (c # d # cs) =
     ((isWhitespace c \<longrightarrow> c = CHR '' '' \<and> \<not> isWhitespace d) \<and> singleSpaced (d # cs))"

text \<open>
  What C9 says of one team: \<open>raw\<close> is the team of the raw record, \<open>n\<close> its name and \<open>t\<close>
  the team of the normalized match. The short name is the upper case of the first three
  initials, which is the specification's short name unless a sharp s is among them; the
  id, without an upstream one, is the lowercased name with a hyphen for every run of
  whitespace, which is the specification's slug for a name with single spaces.
\<close>

definition derivedIdentity :: "js \<Rightarrow> string \<Rightarrow> js \<Rightarrow> bool" where
  "derivedIdentity raw n t \<longleftrightarrow>
     (upperCaseIn8Bit (take 3 (initialsOfWords n)) \<longrightarrow>
        jsget t ''shortName'' = JStr (toUpperCase (take 3 (initialsOfWords n)))
        \<and> (CHR 0xDF \<notin> set (take 3 (initialsOfWords n)) \<longrightarrow>
             jsget t ''shortName'' = JStr (shortNameSpec n)))
     \<and> (\<not> truthy (jsget raw ''id'') \<longrightarrow>
          jsget t ''id'' = JStr (toLowerCase (replace_ws n))
          \<and> (singleSpaced n \<longrightarrow> jsget t ''id'' = JStr (slugSpec n)))"

text \<open>
  Two raw records, one of Shape A and one of Shape B, describe the same fixture: the
  same id, the same teams (id, name, score), the same kickoff instant and the same
  finished, started and cancelled flags.
\<close>

definition sameTeam :: "js \<Rightarrow> js \<Rightarrow> bool" where
  "sameTeam t u \<longleftrightarrow> jsget t ''id'' = jsget u ''id'' \<and> jsget t ''name'' = jsget u ''name''
                   \<and> jsget t ''score'' = jsget u ''score''"

definition sameFixture :: "js_runtime \<Rightarrow> js \<Rightarrow> js \<Rightarrow> bool" where
  "sameFixture rt a b \<longleftrightarrow>
     jsget a ''id'' = jsget b ''id''
     \<and> sameTeam (jsget a ''homeTeam'') (jsget b ''home'')
     \<and> sameTeam (jsget a ''awayTeam'') (jsget b ''away'')
     \<and> parseUTCTime rt (jsget a ''utcTime'') = parseUTCTime rt (jsget (jsget b ''status'') ''utcTime'')
     \<and> truthy (jsget (jsget a ''status'') ''finished'') = truthy (jsget (jsget b ''status'') ''finished'')
     \<and> truthy (jsget (jsget a ''status'') ''started'') = truthy (jsget (jsget b ''status'') ''started'')
     \<and> truthy (jsget (jsget a ''status'') ''cancelled'') = truthy (jsget (jsget b ''status'') ''cancelled'')"

definition withoutBestOdds :: "normalized_match \<Rightarrow> normalized_match" where
  "withoutBestOdds m = m \<lparr> bestOdds := JUndefined \<rparr>"

text \<open>
  The round selector of the specification: the matches in consecutive groups of
  \<open>n\<close> (the last may be short); the closing kickoff of a group is its latest one; the
  current round is the first group whose closing kickoff plus 120 minutes is after now,
  and the last group when there is none.
\<close>

definition kickoffOf :: "js_runtime \<Rightarrow> cached_match \<Rightarrow> int" where
  "kickoffOf rt m = (case dateParse rt (fixture_date m) of Some k \<Rightarrow> k | None \<Rightarrow> 0)"

function roundsOf :: "nat \<Rightarrow> 'a list \<Rightarrow> 'a list list" where
  "roundsOf n xs = (if n = 0 \<or> xs = [] then [] else take n xs # roundsOf n (drop n xs))"
  by pat_completeness auto
termination
  by (relation "measure (\<lambda>(n, xs). length xs)") auto

declare roundsOf.simps [simp del]

definition closingKickoff :: "js_runtime \<Rightarrow> cached_match list \<Rightarrow> int" where
  "closingKickoff rt g = Max (set (map (kickoffOf rt) g))"

definition selectCurrentRound_spec :: "js_runtime \<Rightarrow> int \<Rightarrow> cached_match list \<Rightarrow> nat \<Rightarrow> cached_match list" where
  "selectCurrentRound_spec rt now ms n =
     (case find (\<lambda>g. now < closingKickoff rt g + 120 * 60000) (roundsOf n ms) of
        Some g \<Rightarrow> g
      | None \<Rightarrow> last (roundsOf n ms))"

text \<open>
  The test that the search loop makes on a round, and the number that the function
  returns for given rounds: the result of the loop, or the number of rounds.
\<close>

definition withinGrace :: "js_runtime \<Rightarrow> int \<Rightarrow> cached_match list \<Rightarrow> bool" where
  "withinGrace rt now roundMatches =
     int_less (map_option (\<lambda>k. now - k) (dateParse rt (fixture_date (last roundMatches)))) GRACE_PERIOD_MS"

definition roundAt :: "js_runtime \<Rightarrow> int \<Rightarrow> cached_match list list \<Rightarrow> int \<Rightarrow> int" where
  "roundAt rt now rounds roundIndex =
     (case findCurrentRound rt now rounds roundIndex of
        Some r \<Rightarrow> r
      | None \<Rightarrow> roundIndex + int (length rounds))"

text \<open>
  The same notions over the entries of the Bundesliga cache, whose kickoff is
  \<^verbatim>\<open>status.utcTime\<close>: an entry the route's selector can read (it has a status, and the
  kickoff is a valid date), the latest kickoff of a round, a round whose latest kickoff
  plus 120 minutes is still after now, and the specification's selector.
\<close>

definition routeReadable :: "js_runtime \<Rightarrow> js \<Rightarrow> bool" where
  "routeReadable rt m \<longleftrightarrow>
     \<not> nullish m \<and> \<not> nullish (jsget m ''status'')
     \<and> newDate rt (jsget (jsget m ''status'') ''utcTime'') \<noteq> None"

definition routeKickoff :: "js_runtime \<Rightarrow> js \<Rightarrow> int" where
  "routeKickoff rt m = (case newDate rt (jsget (jsget m ''status'') ''utcTime'') of Some k \<Rightarrow> k | None \<Rightarrow> 0)"

definition routeClosing :: "js_runtime \<Rightarrow> js list \<Rightarrow> int" where
  "routeClosing rt g = Max (set (map (routeKickoff rt) g))"

definition routeOpen :: "js_runtime \<Rightarrow> int \<Rightarrow> js list \<Rightarrow> bool" where
  "routeOpen rt now g \<longleftrightarrow> now < routeClosing rt g + 120 * 60000"

definition selectRouteRound_spec :: "js_runtime \<Rightarrow> int \<Rightarrow> js list \<Rightarrow> nat \<Rightarrow> js list" where
  "selectRouteRound_spec rt now ms n =
     (case find (routeOpen rt now) (roundsOf n ms) of
        Some g \<Rightarrow> g
      | None \<Rightarrow> last (roundsOf n ms))"

section \<open>Elapsed minutes\<close>

lemma minutes_ge_iff: "nan_ge (minutesElapsed now (Some k)) 0 \<longleftrightarrow> k \<le> now"
  by (simp add: nan_ge_def minutesElapsed_def zero_le_divide_iff)

lemma minutes_less_iff: "nan_less (minutesElapsed now (Some k)) 120 \<longleftrightarrow> now - k < 7200000"
proof -
  have "(of_int (now - k) :: rat) / (1000 * 60) < 120 \<longleftrightarrow> (of_int (now - k) :: rat) < of_int 7200000"
    by (simp add: divide_less_eq)
  also have "\<dots> \<longleftrightarrow> now - k < 7200000"
    by (simp only: of_int_less_iff)
  finally show ?thesis
    by (simp add: nan_less_def minutesElapsed_def)
qed

lemma minutes_ge_120_iff: "nan_ge (minutesElapsed now (Some k)) 120 \<longleftrightarrow> 7200000 \<le> now - k"
proof -
  have "120 \<le> (of_int (now - k) :: rat) / (1000 * 60) \<longleftrightarrow> (of_int 7200000 :: rat) \<le> of_int (now - k)"
    by (simp add: le_divide_eq)
  also have "\<dots> \<longleftrightarrow> 7200000 \<le> now - k"
    by (simp only: of_int_le_iff)
  finally show ?thesis
    by (simp add: nan_ge_def minutesElapsed_def)
qed

lemma minutes_nan [simp]:
  "\<not> nan_ge (minutesElapsed now None) b" "\<not> nan_less (minutesElapsed now None) b"
  by (simp_all add: nan_ge_def nan_less_def minutesElapsed_def)

section \<open>Status classification by time alone\<close>

lemma determineStatus_no_flags:
  assumes "\<not> truthy finished" "\<not> truthy started" "\<not> truthy cancelled" "\<not> truthy ongoing"
  shows "determineStatus now (Some k) finished started cancelled ongoing =
           (if k \<le> now \<and> now - k < 7200000 then LIVE else SCHEDULED)"
  using assms by (simp add: determineStatus_def Let_def minutes_ge_iff minutes_less_iff)

lemma calculateMatchStatus_no_code:
  assumes "dateParse rt s = Some k"
  shows "calculateMatchStatus rt now s None =
           (if now < k then U_SCHEDULED else if now - k < 6300000 then U_LIVE else U_FINISHED)"
  using assms
  by (simp add: calculateMatchStatus_def Let_def int_less_def MATCH_DURATION_MS_def
      GRACE_PERIOD_MS_def MINUTES_IN_MS_def)

text \<open>
  C2, as the code has it. With no flags and no status code, for a kickoff that parses to
  the instant \<open>k\<close> (milliseconds): before kickoff both classifiers give SCHEDULED; for an
  elapsed time in [0, 105) minutes both give LIVE; from 105 minutes on
  \<open>calculateMatchStatus\<close> gives FINISHED, while \<open>determineStatus\<close> keeps LIVE up to
  120 minutes.
\<close>

theorem status_by_time_alone:
  assumes "dateParse rt s = Some k"
      and "\<not> truthy finished" "\<not> truthy started" "\<not> truthy cancelled" "\<not> truthy ongoing"
  shows "(now < k \<longrightarrow>
            calculateMatchStatus rt now s None = U_SCHEDULED
          \<and> determineStatus now (Some k) finished started cancelled ongoing = SCHEDULED)
       \<and> (0 \<le> now - k \<and> now - k < 105 * 60000 \<longrightarrow>
            calculateMatchStatus rt now s None = U_LIVE
          \<and> determineStatus now (Some k) finished started cancelled ongoing = LIVE)
       \<and> (105 * 60000 \<le> now - k \<longrightarrow> calculateMatchStatus rt now s None = U_FINISHED)
       \<and> (105 * 60000 \<le> now - k \<and> now - k < 120 * 60000 \<longrightarrow>
            determineStatus now (Some k) finished started cancelled ongoing = LIVE)"
  using assms by (simp add: determineStatus_no_flags calculateMatchStatus_no_code)

theorem status_by_time_alone_witness:
  "calculateMatchStatus (node 0) 1755648000000 ''2025-08-22T18:30:00Z'' None = U_SCHEDULED
   \<and> determineStatus 1755648000000 (Some 1755887400000) JUndefined (JBool False) JUndefined JUndefined = SCHEDULED
   \<and> calculateMatchStatus (node 0) 1755889200000 ''2025-08-22T18:30:00Z'' None = U_LIVE
   \<and> determineStatus 1755889200000 (Some 1755887400000) JUndefined (JBool False) JUndefined JUndefined = LIVE
   \<and> calculateMatchStatus (node 0) 1755894000000 ''2025-08-22T18:30:00Z'' None = U_FINISHED
   \<and> determineStatus 1755894000000 (Some 1755887400000) JUndefined (JBool False) JUndefined JUndefined = LIVE"
proof -
  have p: "dateParse (node 0) ''2025-08-22T18:30:00Z'' = Some 1755887400000"
    by code_simp
  have f: "\<not> truthy JUndefined" "\<not> truthy (JBool False)"
    by simp_all
  note t = status_by_time_alone [OF p f(1) f(2) f(1) f(1)]
  from t [of 1755648000000] t [of 1755889200000] t [of 1755894000000]
  show ?thesis by simp
qed

text \<open>
  C2 as stated fails for the normalizer's classifier: 110 minutes after kickoff, with
  no flag set, \<open>determineStatus\<close> answers LIVE, not FINISHED.
\<close>

theorem determineStatus_110_minutes_not_finished:
  "determineStatus (110 * 60000) (Some 0) JUndefined JUndefined JUndefined JUndefined \<noteq> FINISHED"
  by (simp add: determineStatus_no_flags)

section \<open>The relevance filters\<close>

lemma filterRelevantMatches_eq:
  "filterRelevantMatches rt now ms =
     filter (\<lambda>m. case newDate rt (kickoffTime m) of None \<Rightarrow> False | Some k \<Rightarrow> now - k < 7200000) ms"
  unfolding filterRelevantMatches_def
  by (rule filter_cong) (auto simp: minutes_less_iff split: option.splits)

lemma filterRelevantMatches_utils_eq:
  "filterRelevantMatches_utils rt now ms =
     filter (\<lambda>m. status_u m \<noteq> U_FINISHED
                \<or> (case dateParse rt (kickoffTime_u m) of None \<Rightarrow> False | Some k \<Rightarrow> now - k < 7200000)) ms"
  unfolding filterRelevantMatches_utils_def
proof (rule filter_cong)
  fix m
  show "(let timeSinceKickoff = map_option (\<lambda>k. now - k) (dateParse rt (kickoffTime_u m))
         in if status_u m = U_SCHEDULED then True
            else if status_u m = U_LIVE then True
            else if status_u m = U_FINISHED \<and> int_less timeSinceKickoff GRACE_PERIOD_MS then True
            else False)
        = (status_u m \<noteq> U_FINISHED
           \<or> (case dateParse rt (kickoffTime_u m) of None \<Rightarrow> False | Some k \<Rightarrow> now - k < 7200000))"
    by (cases "status_u m")
       (auto simp: int_less_def GRACE_PERIOD_MS_def MINUTES_IN_MS_def split: option.splits)
qed simp

text \<open>
  C3, as the code has it. The filter of the unified utilities keeps a match if and only
  if its status is not FINISHED, or it is FINISHED and less than 120 minutes have passed
  since a kickoff that parses (its statuses are SCHEDULED, LIVE and FINISHED). The filter
  of the normalizer looks at the time only: it keeps a match if and only if its kickoff is
  a valid instant less than 120 minutes before now, whatever the status.
\<close>

theorem relevance_filters:
  "filterRelevantMatches_utils rt now us =
     filter (\<lambda>m. status_u m \<noteq> U_FINISHED
                \<or> (status_u m = U_FINISHED
                    \<and> (\<exists>k. dateParse rt (kickoffTime_u m) = Some k \<and> now - k < 120 * 60000))) us
   \<and> filterRelevantMatches rt now ms =
     filter (\<lambda>m. \<exists>k. newDate rt (kickoffTime m) = Some k \<and> now - k < 120 * 60000) ms"
proof
  show "filterRelevantMatches_utils rt now us =
     filter (\<lambda>m. status_u m \<noteq> U_FINISHED
                \<or> (status_u m = U_FINISHED
                    \<and> (\<exists>k. dateParse rt (kickoffTime_u m) = Some k \<and> now - k < 120 * 60000))) us"
    unfolding filterRelevantMatches_utils_eq
    by (rule filter_cong) (auto split: option.splits)
  show "filterRelevantMatches rt now ms =
     filter (\<lambda>m. \<exists>k. newDate rt (kickoffTime m) = Some k \<and> now - k < 120 * 60000) ms"
    unfolding filterRelevantMatches_eq
    by (rule filter_cong) (auto split: option.splits)
qed

theorem relevance_filters_witness:
  "filterRelevantMatches_utils (node 0) 1755895200000
     [exampleUtils ''2025-08-22T18:30:00Z'' U_LIVE,
      exampleUtils ''2025-08-22T18:30:00Z'' U_FINISHED,
      exampleUtils ''2025-08-22T19:30:00Z'' U_FINISHED]
   = [exampleUtils ''2025-08-22T18:30:00Z'' U_LIVE,
      exampleUtils ''2025-08-22T19:30:00Z'' U_FINISHED]
   \<and> filterRelevantMatches (node 0) 1755895200000
     [exampleNormalized ''2025-08-22T18:30:00Z'' ''FINISHED'',
      exampleNormalized ''2025-08-22T19:30:00Z'' ''FINISHED'']
   = [exampleNormalized ''2025-08-22T19:30:00Z'' ''FINISHED'']"
proof -
  have p: "dateParse (node 0) ''2025-08-22T18:30:00Z'' = Some 1755887400000"
          "dateParse (node 0) ''2025-08-22T19:30:00Z'' = Some 1755891000000"
    by code_simp+
  show ?thesis
    using relevance_filters [of "node 0" 1755895200000
        "[exampleUtils ''2025-08-22T18:30:00Z'' U_LIVE,
          exampleUtils ''2025-08-22T18:30:00Z'' U_FINISHED,
          exampleUtils ''2025-08-22T19:30:00Z'' U_FINISHED]"
        "[exampleNormalized ''2025-08-22T18:30:00Z'' ''FINISHED'',
          exampleNormalized ''2025-08-22T19:30:00Z'' ''FINISHED'']"]
    by (simp add: p exampleUtils_def exampleNormalized_def)
qed

text \<open>
  C3 as stated fails for the normalizer's filter: a match whose status is LIVE, 130
  minutes after its kickoff, is removed.
\<close>

theorem filterRelevantMatches_drops_live:
  "filterRelevantMatches (node 0) 1755895200000 [exampleNormalized ''2025-08-22T18:30:00Z'' ''LIVE''] = []"
  by code_simp

section \<open>Kickoff parsing\<close>













section \<open>The dispatcher\<close>

lemma set_insertMatch: "set (insertMatch rt x ys) = insert x (set ys)"
  by (induction ys) auto

lemma set_sortMatches: "set (sortMatches rt xs) = set xs"
  unfolding sortMatches_def by (induction xs) (simp_all add: set_insertMatch)

lemma mapThrowing_cong:
  "(\<And>i x. x \<in> set xs \<Longrightarrow> f i x = g i x) \<Longrightarrow> mapThrowing f i0 xs = mapThrowing g i0 xs"
  by (induction xs arbitrary: i0) (simp_all split: sum.splits)

lemma mapThrowing_fails:
  "x \<in> set xs \<Longrightarrow> (\<And>i. isl (f i x)) \<Longrightarrow> isl (mapThrowing f i0 xs)"
proof (induction xs arbitrary: i0)
  case Nil
  then show ?case by simp
next
  case (Cons y ys)
  show ?case
  proof (cases "f i0 y")
    case (Inl e)
    then show ?thesis by simp
  next
    case (Inr v)
    show ?thesis
    proof (cases "x = y")
      case True
      with Cons.prems(2) [of i0] Inr show ?thesis by simp
    next
      case False
      with Cons.prems have "x \<in> set ys" by simp
      from Cons.IH [OF this Cons.prems(2), of "Suc i0"] Inr show ?thesis
        by (cases "mapThrowing f (Suc i0) ys") simp_all
    qed
  qed
qed

lemma mapThrowing_formatted:
  "\<forall>m\<in>set ms. \<not> nullish m \<Longrightarrow>
     \<exists>out. mapThrowing (\<lambda>i. normalizeFormattedMatch) i0 ms = Inr out
          \<and> set out = {x. \<exists>m\<in>set ms. normalizeFormattedMatch m = Inr x}"
proof (induction ms arbitrary: i0)
  case Nil
  then show ?case by simp
next
  case (Cons m ms)
  from Cons.prems obtain x where x: "normalizeFormattedMatch m = Inr x"
    by (auto simp: normalizeFormattedMatch_def)
  from Cons.IH [of "Suc i0"] Cons.prems obtain out
    where out: "mapThrowing (\<lambda>i. normalizeFormattedMatch) (Suc i0) ms = Inr out"
               "set out = {x. \<exists>m\<in>set ms. normalizeFormattedMatch m = Inr x}"
    by auto
  have "mapThrowing (\<lambda>i. normalizeFormattedMatch) i0 (m # ms) = Inr (x # out)"
    using x out(1) by simp
  moreover have "set (x # out) = {y. \<exists>m'\<in>set (m # ms). normalizeFormattedMatch m' = Inr y}"
    using x out(2) by auto
  ultimately show ?case by blast
qed

lemma normalizeMatches_formatted:
  "normalizeMatches rt w ms ''formatted'' c r =
     ([], case mapThrowing (\<lambda>i. normalizeFormattedMatch) 0 ms of
            Inl e \<Rightarrow> Inl e
          | Inr xs \<Rightarrow> Inr (sortMatches rt (filterRelevantMatches rt (clock w (length ms)) xs)))"
  by (simp add: normalizeMatches_def)

lemma normalizeMatches_unknown:
  "source \<notin> supportedSources \<Longrightarrow>
   normalizeMatches rt w ms source c r =
     ([''Unknown match source format: '' @ source],
      case mapThrowing (\<lambda>i. normalizeFormattedMatch) 0 ms of
        Inl e \<Rightarrow> Inl e
      | Inr xs \<Rightarrow> Inr (sortMatches rt (filterRelevantMatches rt (clock w (length ms)) xs)))"
  by (simp add: normalizeMatches_def supportedSources_def)

lemma formatted_batch_result:
  assumes "\<forall>m\<in>set ms. \<not> nullish m"
  shows "\<exists>out. snd (normalizeMatches rt w ms ''formatted'' c r) = Inr out
        \<and> (\<forall>x. x \<in> set out \<longleftrightarrow>
              (\<exists>m\<in>set ms. normalizeFormattedMatch m = Inr x)
              \<and> (\<exists>k. newDate rt (kickoffTime x) = Some k \<and> clock w (length ms) - k < 120 * 60000))"
proof -
  from mapThrowing_formatted [OF assms, of 0] obtain xs
    where xs: "mapThrowing (\<lambda>i. normalizeFormattedMatch) 0 ms = Inr xs"
              "set xs = {x. \<exists>m\<in>set ms. normalizeFormattedMatch m = Inr x}"
    by blast
  let ?out = "sortMatches rt (filterRelevantMatches rt (clock w (length ms)) xs)"
  have "snd (normalizeMatches rt w ms ''formatted'' c r) = Inr ?out"
    by (simp add: normalizeMatches_formatted xs(1))
  moreover have "\<forall>x. x \<in> set ?out \<longleftrightarrow>
              (\<exists>m\<in>set ms. normalizeFormattedMatch m = Inr x)
              \<and> (\<exists>k. newDate rt (kickoffTime x) = Some k \<and> clock w (length ms) - k < 120 * 60000)"
    by (auto simp: set_sortMatches filterRelevantMatches_eq xs(2) split: option.splits)
  ultimately show ?thesis by blast
qed

text \<open>
  C8, as the code has it. For a source tag outside the supported set the dispatcher
  writes a warning to the console and normalizes the batch as already formatted: it
  returns what it returns for the tag \<open>formatted\<close>, and for a batch of objects that is an
  array, not an error.
\<close>

theorem unknown_source_falls_back_to_formatted:
  assumes "source \<notin> supportedSources"
  shows "normalizeMatches rt w ms source c r =
           ([''Unknown match source format: '' @ source],
            snd (normalizeMatches rt w ms ''formatted'' c r))
       \<and> ((\<forall>m\<in>set ms. \<not> nullish m) \<longrightarrow>
            (\<exists>out. snd (normalizeMatches rt w ms source c r) = Inr out))"
proof
  show eq: "normalizeMatches rt w ms source c r =
           ([''Unknown match source format: '' @ source],
            snd (normalizeMatches rt w ms ''formatted'' c r))"
    by (simp add: normalizeMatches_unknown [OF assms] normalizeMatches_formatted)
  show "(\<forall>m\<in>set ms. \<not> nullish m) \<longrightarrow>
            (\<exists>out. snd (normalizeMatches rt w ms source c r) = Inr out)"
  proof
    assume "\<forall>m\<in>set ms. \<not> nullish m"
    from formatted_batch_result [OF this, of rt w c r] show
      "\<exists>out. snd (normalizeMatches rt w ms source c r) = Inr out"
      unfolding eq by auto
  qed
qed

theorem unknown_source_falls_back_to_formatted_witness:
  "normalizeMatches (node 0) (worldAt 1755648000000 0)
      [exampleFormatted ''2025-08-22T18:30:00Z'' ''SCHEDULED''] ''betfair'' JUndefined JUndefined
   = ([''Unknown match source format: '' @ ''betfair''],
      snd (normalizeMatches (node 0) (worldAt 1755648000000 0)
             [exampleFormatted ''2025-08-22T18:30:00Z'' ''SCHEDULED''] ''formatted'' JUndefined JUndefined))
   \<and> (\<exists>out. snd (normalizeMatches (node 0) (worldAt 1755648000000 0)
             [exampleFormatted ''2025-08-22T18:30:00Z'' ''SCHEDULED''] ''betfair'' JUndefined JUndefined)
           = Inr out)"
proof -
  have s: "''betfair'' \<notin> supportedSources"
    by (simp add: supportedSources_def)
  have n: "\<forall>m\<in>set [exampleFormatted ''2025-08-22T18:30:00Z'' ''SCHEDULED'']. \<not> nullish m"
    by (simp add: exampleFormatted_def nullish_def)
  note t = unknown_source_falls_back_to_formatted [OF s, of "node 0" "worldAt 1755648000000 0"
      "[exampleFormatted ''2025-08-22T18:30:00Z'' ''SCHEDULED'']" JUndefined JUndefined]
  show ?thesis
    using conjunct1 [OF t] mp [OF conjunct2 [OF t] n] by (rule conjI)
qed

text \<open>
  C8 as stated fails: called with the tag \<open>betfair\<close>, the dispatcher signals no error;
  it returns the record, read as an already formatted one.
\<close>

theorem unknown_source_returns_result:
  "normalizeMatches (node 0) (worldAt 1755648000000 0)
      [exampleFormatted ''2025-08-22T18:30:00Z'' ''SCHEDULED''] ''betfair'' JUndefined JUndefined
   = ([''Unknown match source format: betfair''],
      Inr [exampleNormalized ''2025-08-22T18:30:00Z'' ''SCHEDULED''])"
  by code_simp

section \<open>What a call depends on\<close>

lemma pinnacleBestOdds_complete:
  assumes "truthy (jsget ml ''home'')" "truthy (jsget ml ''draw'')" "truthy (jsget ml ''away'')"
  shows "pinnacleBestOdds r1 ml = pinnacleBestOdds r2 ml"
  using assms by (simp add: pinnacleBestOdds_def Let_def)

lemma normalizePinnacleMatch_complete:
  assumes "moneyLineComplete m"
  shows "normalizePinnacleMatch rt now r1 m c r = normalizePinnacleMatch rt now r2 m c r"
proof -
  let ?ml = "or_js (jsget (jsget (jsget m ''periods'') ''num_0'') ''money_line'') (JObj [])"
  from assms have h: "pinnacleBestOdds r1 ?ml = pinnacleBestOdds r2 ?ml"
    by (intro pinnacleBestOdds_complete) (simp_all add: moneyLineComplete_def Let_def)
  show ?thesis
    unfolding normalizePinnacleMatch_def Let_def h by (rule refl)
qed

text \<open>
  C10, as the code has it. The current instant is not an argument: it is read from the
  wall clock inside the call, and the sportsbook normalizer draws from
  \<^verbatim>\<open>Math.random()\<close> for every odd that a record lacks. Two evaluations with the same
  arguments that see the same clock readings give the same output for every tag other
  than \<open>pinnacle\<close>, and for \<open>pinnacle\<close> when every record carries all three money-line
  odds.
\<close>

theorem normalizeMatches_determined:
  assumes "clock w1 = clock w2"
      and "source \<noteq> ''pinnacle'' \<or> (\<forall>m\<in>set ms. moneyLineComplete m)"
  shows "normalizeMatches rt w1 ms source c r = normalizeMatches rt w2 ms source c r"
proof (cases "source = ''pinnacle''")
  case False
  then show ?thesis
    unfolding normalizeMatches_def assms(1) by simp
next
  case True
  with assms(2) have "\<forall>m\<in>set ms. moneyLineComplete m"
    by simp
  then have h: "mapThrowing (\<lambda>i m. normalizePinnacleMatch rt (clock w2 i) (random w1 i) m c r) 0 ms
           = mapThrowing (\<lambda>i m. normalizePinnacleMatch rt (clock w2 i) (random w2 i) m c r) 0 ms"
    by (intro mapThrowing_cong normalizePinnacleMatch_complete) simp
  show ?thesis
    unfolding normalizeMatches_def assms(1) True by (simp add: h)
qed

theorem normalizeMatches_determined_witness:
  "normalizeMatches (node 0) (worldAt 1755648000000 0) [exampleA] ''austrian-weekend'' JUndefined JUndefined
   = normalizeMatches (node 0) (worldAt 1755648000000 (1 / 2)) [exampleA] ''austrian-weekend'' JUndefined JUndefined
   \<and> normalizeMatches (node 0) (worldAt 1755648000000 0) [examplePinnacleOdds] ''pinnacle'' JUndefined JUndefined
   = normalizeMatches (node 0) (worldAt 1755648000000 (1 / 2)) [examplePinnacleOdds] ''pinnacle'' JUndefined JUndefined"
proof -
  have c: "clock (worldAt 1755648000000 0) = clock (worldAt 1755648000000 (1 / 2))"
    by (simp add: worldAt_def)
  have a: "''austrian-weekend'' \<noteq> ''pinnacle'' \<or> (\<forall>m\<in>set [exampleA]. moneyLineComplete m)"
    by simp
  have "moneyLineComplete examplePinnacleOdds"
    by code_simp
  then have b: "''pinnacle'' \<noteq> ''pinnacle'' \<or> (\<forall>m\<in>set [examplePinnacleOdds]. moneyLineComplete m)"
    by simp
  show ?thesis
    using normalizeMatches_determined [OF c a] normalizeMatches_determined [OF c b]
    by (rule conjI)
qed

text \<open>
  C10 as stated fails: with the same arguments and the same clock reading, a sportsbook
  record without money line gets its odds from the random draws, and two evaluations
  that draw 0 and 0.5 return different matches.
\<close>

theorem pinnacle_output_depends_on_random:
  "snd (normalizeMatches (node 0) (worldAt 1755648000000 0) [examplePinnacle] ''pinnacle'' JUndefined JUndefined)
   \<noteq> snd (normalizeMatches (node 0) (worldAt 1755648000000 (1 / 2)) [examplePinnacle] ''pinnacle'' JUndefined JUndefined)"
  by code_simp

section \<open>A record whose kickoff does not parse\<close>

lemma normalizeAustrianWeekendMatch_invalid:
  "parseUTCTime rt (jsget m ''utcTime'') = Inr None \<Longrightarrow>
     isl (normalizeAustrianWeekendMatch rt now m c)"
  by (simp add: normalizeAustrianWeekendMatch_def Let_def split: sum.splits)

lemma normalizeGermanBundesligaMatch_invalid:
  "parseUTCTime rt (jsget (jsget m ''status'') ''utcTime'') = Inr None \<Longrightarrow>
     isl (normalizeGermanBundesligaMatch rt now m c r)"
  by (simp add: normalizeGermanBundesligaMatch_def Let_def split: sum.splits)

lemma normalizePinnacleMatch_invalid:
  "parseUTCTime rt (jsget m ''starts'') = Inr None \<Longrightarrow>
     isl (normalizePinnacleMatch rt now rnd m c r)"
  by (simp add: normalizePinnacleMatch_def Let_def split: sum.splits)

lemma normalizeMatches_throws:
  assumes "isl (mapThrowing f 0 ms)"
  shows "isl (case mapThrowing f 0 ms of Inl e \<Rightarrow> Inl e | Inr xs \<Rightarrow> Inr (g xs))"
  using assms by (cases "mapThrowing f 0 ms") simp_all

text \<open>
  C7, as the code has it. The normalizers of the raw shapes do not skip a record: one
  whose kickoff string parses to no valid instant makes its normalizer throw, and the
  dispatcher, which catches nothing, then throws for the whole batch. Only for the tag
  \<open>formatted\<close> does a batch of objects always return, and there the result holds exactly
  the records whose kickoff is a valid instant less than 120 minutes before now: a record
  with an unparseable kickoff is left out and the others are kept.
\<close>

theorem unparseable_kickoff:
  "(m \<in> set ms \<and> parseUTCTime rt (jsget m ''utcTime'') = Inr None \<longrightarrow>
      isl (snd (normalizeMatches rt w ms ''austrian-weekend'' c r)))
   \<and> (m \<in> set ms \<and> parseUTCTime rt (jsget (jsget m ''status'') ''utcTime'') = Inr None \<longrightarrow>
      isl (snd (normalizeMatches rt w ms ''german-bundesliga'' c r))
      \<and> isl (snd (normalizeMatches rt w ms ''german-2bundesliga'' c r))
      \<and> isl (snd (normalizeMatches rt w ms ''premier-league'' c r)))
   \<and> (m \<in> set ms \<and> parseUTCTime rt (jsget m ''starts'') = Inr None \<longrightarrow>
      isl (snd (normalizeMatches rt w ms ''pinnacle'' c r)))
   \<and> ((\<forall>x\<in>set ms. \<not> nullish x) \<longrightarrow>
      (\<exists>out. snd (normalizeMatches rt w ms ''formatted'' c r) = Inr out
         \<and> (\<forall>x. x \<in> set out \<longleftrightarrow>
               (\<exists>y\<in>set ms. normalizeFormattedMatch y = Inr x)
               \<and> (\<exists>k. newDate rt (kickoffTime x) = Some k \<and> clock w (length ms) - k < 120 * 60000))))"
proof (intro conjI impI)
  assume a: "m \<in> set ms \<and> parseUTCTime rt (jsget m ''utcTime'') = Inr None"
  then have "isl (mapThrowing (\<lambda>i x. normalizeAustrianWeekendMatch rt (clock w i) x c) 0 ms)"
    by (intro mapThrowing_fails [of m] normalizeAustrianWeekendMatch_invalid) simp_all
  then show "isl (snd (normalizeMatches rt w ms ''austrian-weekend'' c r))"
    by (simp add: normalizeMatches_def normalizeMatches_throws)
next
  assume a: "m \<in> set ms \<and> parseUTCTime rt (jsget (jsget m ''status'') ''utcTime'') = Inr None"
  then have t: "isl (mapThrowing (\<lambda>i x. normalizeGermanBundesligaMatch rt (clock w i) x l r) 0 ms)" for l
    by (intro mapThrowing_fails [of m] normalizeGermanBundesligaMatch_invalid) simp_all
  show "isl (snd (normalizeMatches rt w ms ''german-bundesliga'' c r))"
    by (simp add: normalizeMatches_def normalizeMatches_throws t)
  show "isl (snd (normalizeMatches rt w ms ''german-2bundesliga'' c r))"
    by (simp add: normalizeMatches_def normalizeMatches_throws t)
  show "isl (snd (normalizeMatches rt w ms ''premier-league'' c r))"
    by (simp add: normalizeMatches_def normalizeMatches_throws t)
next
  assume a: "m \<in> set ms \<and> parseUTCTime rt (jsget m ''starts'') = Inr None"
  then have "isl (mapThrowing (\<lambda>i x. normalizePinnacleMatch rt (clock w i) (random w i) x c r) 0 ms)"
    by (intro mapThrowing_fails [of m] normalizePinnacleMatch_invalid) simp_all
  then show "isl (snd (normalizeMatches rt w ms ''pinnacle'' c r))"
    by (simp add: normalizeMatches_def normalizeMatches_throws)
next
  assume "\<forall>x\<in>set ms. \<not> nullish x"
  from formatted_batch_result [OF this, of rt w c r]
  show "\<exists>out. snd (normalizeMatches rt w ms ''formatted'' c r) = Inr out
         \<and> (\<forall>x. x \<in> set out \<longleftrightarrow>
               (\<exists>y\<in>set ms. normalizeFormattedMatch y = Inr x)
               \<and> (\<exists>k. newDate rt (kickoffTime x) = Some k \<and> clock w (length ms) - k < 120 * 60000))"
    by simp
qed

theorem unparseable_kickoff_witness:
  "isl (snd (normalizeMatches (node 0) (worldAt 1755648000000 0) [exampleA, exampleBadA]
              ''austrian-weekend'' JUndefined JUndefined))
   \<and> isl (snd (normalizeMatches (node 0) (worldAt 1755648000000 0) [exampleB, exampleBadB]
              ''german-bundesliga'' JUndefined JUndefined))
   \<and> isl (snd (normalizeMatches (node 0) (worldAt 1755648000000 0) [examplePinnacle, exampleBadPinnacle]
              ''pinnacle'' JUndefined JUndefined))
   \<and> (\<exists>out. snd (normalizeMatches (node 0) (worldAt 1755648000000 0)
                   [exampleFormatted ''2025-08-22T18:30:00Z'' ''SCHEDULED'',
                    exampleFormatted ''postponed'' ''SCHEDULED''] ''formatted'' JUndefined JUndefined)
              = Inr out
        \<and> exampleNormalized ''2025-08-22T18:30:00Z'' ''SCHEDULED'' \<in> set out
        \<and> exampleNormalized ''postponed'' ''SCHEDULED'' \<notin> set out)"
proof -
  let ?w = "worldAt 1755648000000 0"
  let ?good = "exampleFormatted ''2025-08-22T18:30:00Z'' ''SCHEDULED''"
  let ?bad = "exampleFormatted ''postponed'' ''SCHEDULED''"
  have a: "exampleBadA \<in> set [exampleA, exampleBadA]
           \<and> parseUTCTime (node 0) (jsget exampleBadA ''utcTime'') = Inr None"
    by code_simp
  have b: "exampleBadB \<in> set [exampleB, exampleBadB]
           \<and> parseUTCTime (node 0) (jsget (jsget exampleBadB ''status'') ''utcTime'') = Inr None"
    by code_simp
  have c: "exampleBadPinnacle \<in> set [examplePinnacle, exampleBadPinnacle]
           \<and> parseUTCTime (node 0) (jsget exampleBadPinnacle ''starts'') = Inr None"
    by code_simp
  have d: "\<forall>x\<in>set [?good, ?bad]. \<not> nullish x"
    by (simp add: exampleFormatted_def nullish_def)
  have k1: "newDate (node 0) (kickoffTime (exampleNormalized ''2025-08-22T18:30:00Z'' ''SCHEDULED''))
              = Some 1755887400000"
    by code_simp
  have k2: "newDate (node 0) (kickoffTime (exampleNormalized ''postponed'' ''SCHEDULED'')) = None"
    by code_simp
  have f: "normalizeFormattedMatch (exampleFormatted s t) = Inr (exampleNormalized s t)" for s t
    by (simp add: normalizeFormattedMatch_def exampleFormatted_def exampleNormalized_def nullish_def)
  note t1 = unparseable_kickoff [of exampleBadA "[exampleA, exampleBadA]" "node 0" ?w JUndefined JUndefined]
  note t2 = unparseable_kickoff [of exampleBadB "[exampleB, exampleBadB]" "node 0" ?w JUndefined JUndefined]
  note t3 = unparseable_kickoff [of exampleBadPinnacle "[examplePinnacle, exampleBadPinnacle]" "node 0"
                ?w JUndefined JUndefined]
  note t4 = unparseable_kickoff [of ?bad "[?good, ?bad]" "node 0" ?w JUndefined JUndefined]
  from t1 a have r1: "isl (snd (normalizeMatches (node 0) ?w [exampleA, exampleBadA]
              ''austrian-weekend'' JUndefined JUndefined))"
    by blast
  from t2 b have r2: "isl (snd (normalizeMatches (node 0) ?w [exampleB, exampleBadB]
              ''german-bundesliga'' JUndefined JUndefined))"
    by blast
  from t3 c have r3: "isl (snd (normalizeMatches (node 0) ?w [examplePinnacle, exampleBadPinnacle]
              ''pinnacle'' JUndefined JUndefined))"
    by blast
  from t4 d obtain out where out:
      "snd (normalizeMatches (node 0) ?w [?good, ?bad] ''formatted'' JUndefined JUndefined) = Inr out"
      "\<forall>x. x \<in> set out \<longleftrightarrow>
          (\<exists>y\<in>set [?good, ?bad]. normalizeFormattedMatch y = Inr x)
          \<and> (\<exists>k. newDate (node 0) (kickoffTime x) = Some k
                 \<and> clock ?w (length [?good, ?bad]) - k < 120 * 60000)"
    by blast
  have "exampleNormalized ''2025-08-22T18:30:00Z'' ''SCHEDULED'' \<in> set out"
    using out(2) by (simp add: f k1 worldAt_def)
  moreover have "exampleNormalized ''postponed'' ''SCHEDULED'' \<notin> set out"
    using out(2) by (simp add: k2)
  ultimately show ?thesis
    using r1 r2 r3 out(1) by blast
qed

text \<open>
  C7 as stated fails: a Shape-A batch of the example fixture and a record whose kickoff
  string is no timestamp does not return the good record; the call throws a RangeError.
\<close>

theorem bad_record_aborts_batch:
  "snd (normalizeMatches (node 0) (worldAt 1755648000000 0) [exampleA, exampleBadA]
          ''austrian-weekend'' JUndefined JUndefined) = Inl RangeError"
  by code_simp

section \<open>Derived team names and ids\<close>

lemma concat_take_1: "concat (map (take 1) ws) = map hd (filter (\<lambda>w. w \<noteq> []) ws)"
proof (induction ws)
  case Nil
  then show ?case by simp
next
  case (Cons w ws)
  then show ?case by (cases w) simp_all
qed

lemma generateShortName_initials:
  "generateShortName name = toUpperCase (take 3 (initialsOfWords name))"
  by (simp only: generateShortName_def initialsOfWords_def concat_take_1)

lemma upperUnits_single: "c \<noteq> CHR 0xDF \<Longrightarrow> \<exists>d. upperUnits c = [d]"
proof -
  assume c: "c \<noteq> CHR 0xDF"
  have "(of_char c :: nat) \<noteq> 223"
  proof
    assume "(of_char c :: nat) = 223"
    then have "char_of (of_char c :: nat) = (char_of (223 :: nat) :: char)"
      by (simp only:)
    moreover have "(char_of (223 :: nat) :: char) = CHR 0xDF"
      by code_simp
    ultimately show False
      using c by simp
  qed
  then show ?thesis
    by (simp add: upperUnits_def Let_def)
qed

lemma toUpperCase_take:
  "CHR 0xDF \<notin> set (take k xs) \<Longrightarrow> toUpperCase (take k xs) = take k (toUpperCase xs)"
proof (induction xs arbitrary: k)
  case Nil
  then show ?case by (simp add: toUpperCase_def)
next
  case (Cons x xs)
  show ?case
  proof (cases k)
    case 0
    then show ?thesis by (simp add: toUpperCase_def)
  next
    case (Suc j)
    with Cons.prems have x: "x \<noteq> CHR 0xDF" and r: "CHR 0xDF \<notin> set (take j xs)"
      by auto
    from upperUnits_single [OF x] obtain d where d: "upperUnits x = [d]"
      by blast
    from Cons.IH [OF r] have "concat (map upperUnits (take j xs)) = take j (concat (map upperUnits xs))"
      by (simp only: toUpperCase_def)
    with Suc d show ?thesis
      by (simp add: toUpperCase_def)
  qed
qed

lemma generateShortName_spec:
  assumes "CHR 0xDF \<notin> set (take 3 (initialsOfWords name))"
  shows "generateShortName name = shortNameSpec name"
  unfolding generateShortName_initials shortNameSpec_def
  by (rule toUpperCase_take [OF assms])

lemma isWhitespace_space: "isWhitespace (CHR '' '')"
  by (simp add: isWhitespace_def)

lemma lowerChar_hyphen: "lowerChar (CHR ''-'') = CHR ''-''"
  by code_simp

lemma replace_ws_singleSpaced:
  "singleSpaced name \<Longrightarrow> replace_ws name = map (\<lambda>c. if c = CHR '' '' then CHR ''-'' else c) name"
proof (induction name rule: singleSpaced.induct)
  case 1
  then show ?case by simp
next
  case (2 c)
  have e: "replace_ws [c] = (if isWhitespace c then [CHR ''-''] else [c])"
    by simp
  show ?case
  proof (cases "isWhitespace c")
    case True
    with 2 have "c = CHR '' ''" by simp
    with True e show ?thesis by (simp del: replace_ws.simps)
  next
    case False
    then have "c \<noteq> CHR '' ''" using isWhitespace_space by blast
    with False e show ?thesis by (simp del: replace_ws.simps)
  qed
next
  case (3 c d cs)
  from "3.prems" have p: "isWhitespace c \<longrightarrow> c = CHR '' '' \<and> \<not> isWhitespace d"
    and q: "singleSpaced (d # cs)"
    by simp_all
  note ih = "3.IH" [OF q]
  have e: "replace_ws (c # d # cs) =
             (if isWhitespace c then CHR ''-'' # replace_ws (dropWhile isWhitespace (d # cs))
              else c # replace_ws (d # cs))"
    by (rule replace_ws.simps)
  show ?case
  proof (cases "isWhitespace c")
    case True
    with p have c: "c = CHR '' ''" and d: "\<not> isWhitespace d" by blast+
    from d have "dropWhile isWhitespace (d # cs) = d # cs" by simp
    with True e have "replace_ws (c # d # cs) = CHR ''-'' # replace_ws (d # cs)"
      by (simp only: if_True)
    with ih c show ?thesis by (simp del: replace_ws.simps)
  next
    case False
    then have c: "c \<noteq> CHR '' ''" using isWhitespace_space by blast
    from False e have "replace_ws (c # d # cs) = c # replace_ws (d # cs)"
      by (simp only: if_False)
    with ih c show ?thesis by (simp del: replace_ws.simps)
  qed
qed

lemma generateTeamId_spec:
  assumes "singleSpaced name"
  shows "generateTeamId name = slugSpec name"
proof -
  have "map lowerChar (map (\<lambda>c. if c = CHR '' '' then CHR ''-'' else c) name)
        = map (\<lambda>c. if c = CHR '' '' then CHR ''-'' else lowerChar c) name"
    by (induction name) (simp_all add: lowerChar_hyphen)
  with assms show ?thesis
    by (simp only: generateTeamId_def slugSpec_def toLowerCase_def replace_ws_singleSpaced)
qed

lemma teamOf_derivedIdentity:
  "derivedIdentity t n
     (JObj [(''id'', or_js (jsget t ''id'') (JStr (generateTeamId n))),
            (''name'', JStr n),
            (''shortName'', JStr (generateShortName n)),
            (''logoUrl'', JNull),
            (''score'', or_js (jsget t ''score'') JNull)])"
proof -
  have s: "jsget (JObj [(''id'', i), (''name'', JStr n), (''shortName'', JStr (generateShortName n)),
                        (''logoUrl'', JNull), (''score'', sc)]) ''shortName''
           = JStr (toUpperCase (take 3 (initialsOfWords n)))" for i sc
    by (simp add: generateShortName_initials)
  have i: "jsget (JObj [(''id'', or_js (jsget t ''id'') (JStr (generateTeamId n))), (''name'', JStr n),
                        (''shortName'', sh), (''logoUrl'', JNull), (''score'', sc)]) ''id''
           = JStr (toLowerCase (replace_ws n))" if "\<not> truthy (jsget t ''id'')" for sh sc
    using that by (simp add: or_js_def generateTeamId_def)
  show ?thesis
    unfolding derivedIdentity_def
  proof (intro conjI impI)
    show "jsget (JObj [(''id'', or_js (jsget t ''id'') (JStr (generateTeamId n))), (''name'', JStr n),
                       (''shortName'', JStr (generateShortName n)), (''logoUrl'', JNull),
                       (''score'', or_js (jsget t ''score'') JNull)]) ''shortName''
          = JStr (toUpperCase (take 3 (initialsOfWords n)))"
      by (rule s)
    assume "CHR 0xDF \<notin> set (take 3 (initialsOfWords n))"
    from generateShortName_spec [OF this]
    show "jsget (JObj [(''id'', or_js (jsget t ''id'') (JStr (generateTeamId n))), (''name'', JStr n),
                       (''shortName'', JStr (generateShortName n)), (''logoUrl'', JNull),
                       (''score'', or_js (jsget t ''score'') JNull)]) ''shortName''
          = JStr (shortNameSpec n)"
      by simp
  next
    assume f: "\<not> truthy (jsget t ''id'')"
    show "jsget (JObj [(''id'', or_js (jsget t ''id'') (JStr (generateTeamId n))), (''name'', JStr n),
                       (''shortName'', JStr (generateShortName n)), (''logoUrl'', JNull),
                       (''score'', or_js (jsget t ''score'') JNull)]) ''id''
          = JStr (toLowerCase (replace_ws n))"
      by (rule i [OF f])
    assume "singleSpaced n"
    from generateTeamId_spec [OF this] i [OF f]
    show "jsget (JObj [(''id'', or_js (jsget t ''id'') (JStr (generateTeamId n))), (''name'', JStr n),
                       (''shortName'', JStr (generateShortName n)), (''logoUrl'', JNull),
                       (''score'', or_js (jsget t ''score'') JNull)]) ''id''
          = JStr (slugSpec n)"
      by (simp only: generateTeamId_def)
  qed
qed

lemma teamOf_named:
  assumes "jsget t ''name'' = JStr n"
  shows "teamOf t = Inr (JObj [(''id'', or_js (jsget t ''id'') (JStr (generateTeamId n))),
                               (''name'', JStr n),
                               (''shortName'', JStr (generateShortName n)),
                               (''logoUrl'', JNull),
                               (''score'', or_js (jsget t ''score'') JNull)])"
  using assms by (cases "n = []") (simp_all add: teamOf_def or_js_def Let_def)

lemma parseUTCTime_error: "parseUTCTime rt v = Inl e \<Longrightarrow> e = TypeError"
  by (auto simp: parseUTCTime_def split: js.splits)

lemma parseUTCTime_nullish: "nullish v \<Longrightarrow> parseUTCTime rt (jsget v k) = Inl TypeError"
  by (auto simp: nullish_def parseUTCTime_def)

text \<open>
  C9, as the code has it. For a Shape-A record whose kickoff parses and whose teams
  have string names, the normalizer returns, and for the home team and for the away
  team: the short name is the upper case of the first three initials of the words of the
  name (the specification's short name, unless a sharp s is among these initials, which
  upper case turns into SS after the truncation); without an upstream id the team id is
  the lowercased name with every run of whitespace replaced by a hyphen, which for a name
  with single spaces is the specification's slug. For the record of scenario 1 this gives
  the status SCHEDULED, the id rb-salzburg and the short name RS, the two initials of
  RB Salzburg.
\<close>

theorem derived_team_identity:
  "(parseUTCTime rt (jsget match ''utcTime'') = Inr (Some k)
    \<and> jsget (jsget match ''homeTeam'') ''name'' = JStr n
    \<and> jsget (jsget match ''awayTeam'') ''name'' = JStr n' \<longrightarrow>
      (\<exists>x. normalizeAustrianWeekendMatch rt now match c = Inr x
         \<and> derivedIdentity (jsget match ''homeTeam'') n (homeTeam x)
         \<and> derivedIdentity (jsget match ''awayTeam'') n' (awayTeam x)))
   \<and> map_sum id (\<lambda>x. (status x, jsget (homeTeam x) ''id'', jsget (homeTeam x) ''shortName''))
        (normalizeAustrianWeekendMatch (node 0) 1755648000000 exampleA JUndefined)
      = Inr (JStr ''SCHEDULED'', JStr ''rb-salzburg'', JStr ''RS'')"
proof (intro conjI impI)
  assume a: "parseUTCTime rt (jsget match ''utcTime'') = Inr (Some k)
    \<and> jsget (jsget match ''homeTeam'') ''name'' = JStr n
    \<and> jsget (jsget match ''awayTeam'') ''name'' = JStr n'"
  then have nn: "\<not> nullish match"
    using parseUTCTime_nullish [of match rt "''utcTime''"] by auto
  let ?st = "jsget match ''status''"
  let ?h = "JObj [(''id'', or_js (jsget (jsget match ''homeTeam'') ''id'') (JStr (generateTeamId n))),
                  (''name'', JStr n),
                  (''shortName'', JStr (generateShortName n)),
                  (''logoUrl'', JNull),
                  (''score'', or_js (jsget (jsget match ''homeTeam'') ''score'') JNull)]"
  let ?a = "JObj [(''id'', or_js (jsget (jsget match ''awayTeam'') ''id'') (JStr (generateTeamId n'))),
                  (''name'', JStr n'),
                  (''shortName'', JStr (generateShortName n')),
                  (''logoUrl'', JNull),
                  (''score'', or_js (jsget (jsget match ''awayTeam'') ''score'') JNull)]"
  let ?x = "\<lparr> match_id = jsget match ''id'',
              league = defaultParam c AUSTRIAN_BUNDESLIGA,
              homeTeam = ?h,
              awayTeam = ?a,
              kickoffTime = JStr (toISOString rt k),
              status = JStr (statusName (determineStatus now (Some k) (jsget ?st ''finished'')
                               (jsget ?st ''started'') (jsget ?st ''cancelled'') JUndefined)),
              round_label = jsget match ''round'',
              season = jsget match ''season'',
              bestOdds = jsget match ''bestOdds'',
              pageUrl = JUndefined,
              liveTime = JUndefined \<rparr>"
  have r: "normalizeAustrianWeekendMatch rt now match c = Inr ?x"
    using a nn teamOf_named [of "jsget match ''homeTeam''" n] teamOf_named [of "jsget match ''awayTeam''" n']
    by (simp add: normalizeAustrianWeekendMatch_def Let_def)
  have h: "derivedIdentity (jsget match ''homeTeam'') n (homeTeam ?x)"
    using teamOf_derivedIdentity [of "jsget match ''homeTeam''" n] by simp
  have w: "derivedIdentity (jsget match ''awayTeam'') n' (awayTeam ?x)"
    using teamOf_derivedIdentity [of "jsget match ''awayTeam''" n'] by simp
  show "\<exists>x. normalizeAustrianWeekendMatch rt now match c = Inr x
         \<and> derivedIdentity (jsget match ''homeTeam'') n (homeTeam x)
         \<and> derivedIdentity (jsget match ''awayTeam'') n' (awayTeam x)"
    using r h w by (intro exI [of _ ?x] conjI)
next
  show "map_sum id (\<lambda>x. (status x, jsget (homeTeam x) ''id'', jsget (homeTeam x) ''shortName''))
        (normalizeAustrianWeekendMatch (node 0) 1755648000000 exampleA JUndefined)
      = Inr (JStr ''SCHEDULED'', JStr ''rb-salzburg'', JStr ''RS'')"
    by code_simp
qed

theorem derived_team_identity_witness:
  "(\<exists>x. normalizeAustrianWeekendMatch (node 0) 1755648000000 exampleA JUndefined = Inr x
      \<and> jsget (homeTeam x) ''shortName'' = JStr ''RS''
      \<and> jsget (homeTeam x) ''id'' = JStr ''rb-salzburg''
      \<and> jsget (awayTeam x) ''shortName'' = JStr ''RW''
      \<and> jsget (awayTeam x) ''id'' = JStr ''rapid-wien'')
   \<and> (\<exists>x. normalizeAustrianWeekendMatch (node 0) 1755648000000 exampleLatin1 JUndefined = Inr x
      \<and> jsget (homeTeam x) ''shortName'' = JStr [CHR 0xD6, CHR ''W'']
      \<and> jsget (awayTeam x) ''id'' = JStr (CHR 0xF6 # ''sterreich-wien''))"
proof
  have a: "parseUTCTime (node 0) (jsget exampleA ''utcTime'') = Inr (Some 1755887400000)
    \<and> jsget (jsget exampleA ''homeTeam'') ''name'' = JStr ''RB Salzburg''
    \<and> jsget (jsget exampleA ''awayTeam'') ''name'' = JStr ''Rapid Wien''"
    by code_simp
  have i: "\<not> truthy (jsget (jsget exampleA ''homeTeam'') ''id'')"
          "\<not> truthy (jsget (jsget exampleA ''awayTeam'') ''id'')"
    by code_simp+
  have s: "singleSpaced ''RB Salzburg''" "singleSpaced ''Rapid Wien''"
    by code_simp+
  have u: "upperCaseIn8Bit (take 3 (initialsOfWords ''RB Salzburg''))"
          "upperCaseIn8Bit (take 3 (initialsOfWords ''Rapid Wien''))"
          "CHR 0xDF \<notin> set (take 3 (initialsOfWords ''RB Salzburg''))"
          "CHR 0xDF \<notin> set (take 3 (initialsOfWords ''Rapid Wien''))"
    by code_simp+
  have v: "shortNameSpec ''RB Salzburg'' = ''RS''" "shortNameSpec ''Rapid Wien'' = ''RW''"
          "slugSpec ''RB Salzburg'' = ''rb-salzburg''" "slugSpec ''Rapid Wien'' = ''rapid-wien''"
    by code_simp+
  from mp [OF conjunct1 [OF derived_team_identity [of "node 0" exampleA 1755887400000
        "''RB Salzburg''" "''Rapid Wien''" 1755648000000 JUndefined]] a]
  obtain x where x: "normalizeAustrianWeekendMatch (node 0) 1755648000000 exampleA JUndefined = Inr x"
     "derivedIdentity (jsget exampleA ''homeTeam'') ''RB Salzburg'' (homeTeam x)"
     "derivedIdentity (jsget exampleA ''awayTeam'') ''Rapid Wien'' (awayTeam x)"
    by (elim exE conjE) (rule that)
  from x(2) u(1,3) i(1) s(1) have "jsget (homeTeam x) ''shortName'' = JStr (shortNameSpec ''RB Salzburg'')"
      "jsget (homeTeam x) ''id'' = JStr (slugSpec ''RB Salzburg'')"
    unfolding derivedIdentity_def by blast+
  moreover from x(3) u(2,4) i(2) s(2) have "jsget (awayTeam x) ''shortName'' = JStr (shortNameSpec ''Rapid Wien'')"
      "jsget (awayTeam x) ''id'' = JStr (slugSpec ''Rapid Wien'')"
    unfolding derivedIdentity_def by blast+
  ultimately show "\<exists>x. normalizeAustrianWeekendMatch (node 0) 1755648000000 exampleA JUndefined = Inr x
      \<and> jsget (homeTeam x) ''shortName'' = JStr ''RS''
      \<and> jsget (homeTeam x) ''id'' = JStr ''rb-salzburg''
      \<and> jsget (awayTeam x) ''shortName'' = JStr ''RW''
      \<and> jsget (awayTeam x) ''id'' = JStr ''rapid-wien''"
    using x(1) unfolding v by (intro exI [of _ x] conjI)
next
  let ?h = "CHR 0xF6 # ''sterreich wien''"
  let ?w = "CHR 0xD6 # ''sterreich Wien''"
  have a: "parseUTCTime (node 0) (jsget exampleLatin1 ''utcTime'') = Inr (Some 1755887400000)
    \<and> jsget (jsget exampleLatin1 ''homeTeam'') ''name'' = JStr ?h
    \<and> jsget (jsget exampleLatin1 ''awayTeam'') ''name'' = JStr ?w"
    by code_simp
  have i: "\<not> truthy (jsget (jsget exampleLatin1 ''awayTeam'') ''id'')"
    by code_simp
  have u: "upperCaseIn8Bit (take 3 (initialsOfWords ?h))"
    by code_simp
  have v: "toUpperCase (take 3 (initialsOfWords ?h)) = [CHR 0xD6, CHR ''W'']"
          "toLowerCase (replace_ws ?w) = CHR 0xF6 # ''sterreich-wien''"
    by code_simp+
  from mp [OF conjunct1 [OF derived_team_identity [of "node 0" exampleLatin1 1755887400000
        ?h ?w 1755648000000 JUndefined]] a]
  obtain x where x: "normalizeAustrianWeekendMatch (node 0) 1755648000000 exampleLatin1 JUndefined = Inr x"
     "derivedIdentity (jsget exampleLatin1 ''homeTeam'') ?h (homeTeam x)"
     "derivedIdentity (jsget exampleLatin1 ''awayTeam'') ?w (awayTeam x)"
    by (elim exE conjE) (rule that)
  from x(2) u have "jsget (homeTeam x) ''shortName'' = JStr (toUpperCase (take 3 (initialsOfWords ?h)))"
    unfolding derivedIdentity_def by blast
  moreover from x(3) i have "jsget (awayTeam x) ''id'' = JStr (toLowerCase (replace_ws ?w))"
    unfolding derivedIdentity_def by blast
  ultimately show "\<exists>x. normalizeAustrianWeekendMatch (node 0) 1755648000000 exampleLatin1 JUndefined = Inr x
      \<and> jsget (homeTeam x) ''shortName'' = JStr [CHR 0xD6, CHR ''W'']
      \<and> jsget (awayTeam x) ''id'' = JStr (CHR 0xF6 # ''sterreich-wien'')"
    using x(1) unfolding v by (intro exI [of _ x] conjI)
qed

text \<open>
  C9 as stated fails in its example: for the record of scenario 1 the short name of
  the home team is not RBS.
\<close>

theorem short_name_of_RB_Salzburg:
  "map_sum id (\<lambda>x. jsget (homeTeam x) ''shortName'')
     (normalizeAustrianWeekendMatch (node 0) 1755648000000 exampleA JUndefined) \<noteq> Inr (JStr ''RBS'')"
  by code_simp

section \<open>The two object-style normalizers\<close>

lemma teamOf_same: "sameTeam t u \<Longrightarrow> teamOf t = teamOf u"
  by (simp add: teamOf_def sameTeam_def Let_def split: js.splits)

lemma determineStatus_truthy:
  assumes "truthy f = truthy f'" "truthy s = truthy s'" "truthy c = truthy c'" "truthy g = truthy g'"
  shows "determineStatus now ko f s c g = determineStatus now ko f' s' c' g'"
  using assms by (simp add: determineStatus_def)

text \<open>
  Both normalizers as one chain of cases. A null or undefined record has no kickoff
  property, so the test for it is the first error of \<open>parseUTCTime\<close>.
\<close>

lemma normalizeAustrianWeekendMatch_cases:
  "normalizeAustrianWeekendMatch rt now a c =
     (case parseUTCTime rt (jsget a ''utcTime'') of
        Inl e \<Rightarrow> Inl TypeError
      | Inr ko \<Rightarrow>
         (case teamOf (jsget a ''homeTeam'') of
            Inl e \<Rightarrow> Inl e
          | Inr home \<Rightarrow>
             (case teamOf (jsget a ''awayTeam'') of
                Inl e \<Rightarrow> Inl e
              | Inr away \<Rightarrow>
                 (case ko of
                    None \<Rightarrow> Inl RangeError
                  | Some k \<Rightarrow>
                      Inr \<lparr> match_id = jsget a ''id'',
                            league = defaultParam c AUSTRIAN_BUNDESLIGA,
                            homeTeam = home,
                            awayTeam = away,
                            kickoffTime = JStr (toISOString rt k),
                            status = JStr (statusName (determineStatus now ko
                                       (jsget (jsget a ''status'') ''finished'')
                                       (jsget (jsget a ''status'') ''started'')
                                       (jsget (jsget a ''status'') ''cancelled'') JUndefined)),
                            round_label = jsget a ''round'',
                            season = jsget a ''season'',
                            bestOdds = jsget a ''bestOdds'',
                            pageUrl = JUndefined,
                            liveTime = JUndefined \<rparr>))))"
proof (cases "nullish a")
  case True
  then show ?thesis
    by (simp add: normalizeAustrianWeekendMatch_def parseUTCTime_nullish)
next
  case False
  show ?thesis
  proof (cases "parseUTCTime rt (jsget a ''utcTime'')")
    case (Inl e)
    with False parseUTCTime_error [OF Inl] show ?thesis
      by (simp add: normalizeAustrianWeekendMatch_def)
  next
    case (Inr ko)
    with False show ?thesis
      unfolding normalizeAustrianWeekendMatch_def Let_def
      by (simp split: sum.splits option.splits)
  qed
qed

lemma normalizeGermanBundesligaMatch_cases:
  "normalizeGermanBundesligaMatch rt now b c r =
     (case parseUTCTime rt (jsget (jsget b ''status'') ''utcTime'') of
        Inl e \<Rightarrow> Inl TypeError
      | Inr ko \<Rightarrow>
         (case teamOf (jsget b ''home'') of
            Inl e \<Rightarrow> Inl e
          | Inr home \<Rightarrow>
             (case teamOf (jsget b ''away'') of
                Inl e \<Rightarrow> Inl e
              | Inr away \<Rightarrow>
                 (case ko of
                    None \<Rightarrow> Inl RangeError
                  | Some k \<Rightarrow>
                      Inr \<lparr> match_id = jsget b ''id'',
                            league = defaultParam c GERMAN_BUNDESLIGA,
                            homeTeam = home,
                            awayTeam = away,
                            kickoffTime = JStr (toISOString rt k),
                            status = JStr (statusName (determineStatus now ko
                                       (jsget (jsget b ''status'') ''finished'')
                                       (jsget (jsget b ''status'') ''started'')
                                       (jsget (jsget b ''status'') ''cancelled'')
                                       (jsget (jsget b ''status'') ''ongoing''))),
                            round_label = or_js r (jsget b ''round''),
                            season = or_js (jsget b ''season'') (JStr ''2024/25''),
                            bestOdds = JUndefined,
                            pageUrl = jsget b ''pageUrl'',
                            liveTime = or_js (jsget (jsget (jsget b ''status'') ''liveTime'') ''short'')
                                             (jsget (jsget b ''status'') ''liveTime'') \<rparr>))))"
proof (cases "nullish b")
  case True
  then have "jsget b ''status'' = JUndefined"
    by (auto simp: nullish_def)
  with True show ?thesis
    by (simp add: normalizeGermanBundesligaMatch_def parseUTCTime_def)
next
  case False
  show ?thesis
  proof (cases "parseUTCTime rt (jsget (jsget b ''status'') ''utcTime'')")
    case (Inl e)
    with False parseUTCTime_error [OF Inl] show ?thesis
      by (simp add: normalizeGermanBundesligaMatch_def Let_def)
  next
    case (Inr ko)
    with False show ?thesis
      unfolding normalizeGermanBundesligaMatch_def Let_def
      by (simp split: sum.splits option.splits)
  qed
qed

text \<open>
  C1, as the code has it. For a Shape-A record and a Shape-B record of the same fixture
  and the same league descriptor passed to both, the two normalizers throw alike or both
  return, and what they return agrees on id, league, homeTeam, awayTeam and kickoffTime.
  The other fields agree under conditions: status when the Shape-B record has no true
  \<open>ongoing\<close> flag; round when no round label is passed to the Shape-B normalizer and the
  records carry the same round; season when the records carry the same non-empty season
  (Shape B fills in 2024/25 otherwise); pageUrl and liveTime when the Shape-B record has
  none. Under all of them the two values are equal but for bestOdds.
\<close>

theorem shapes_A_and_B_converge:
  assumes "sameFixture rt a b" and "c \<noteq> JUndefined"
  shows "map_sum id (\<lambda>x. (match_id x, league x, homeTeam x, awayTeam x, kickoffTime x))
           (normalizeAustrianWeekendMatch rt now a c)
         = map_sum id (\<lambda>x. (match_id x, league x, homeTeam x, awayTeam x, kickoffTime x))
           (normalizeGermanBundesligaMatch rt now b c r)
       \<and> (\<not> truthy (jsget (jsget b ''status'') ''ongoing'') \<longrightarrow>
            map_sum id status (normalizeAustrianWeekendMatch rt now a c)
            = map_sum id status (normalizeGermanBundesligaMatch rt now b c r))
       \<and> (\<not> truthy r \<and> jsget a ''round'' = jsget b ''round'' \<longrightarrow>
            map_sum id round_label (normalizeAustrianWeekendMatch rt now a c)
            = map_sum id round_label (normalizeGermanBundesligaMatch rt now b c r))
       \<and> (truthy (jsget a ''season'') \<and> jsget a ''season'' = jsget b ''season'' \<longrightarrow>
            map_sum id season (normalizeAustrianWeekendMatch rt now a c)
            = map_sum id season (normalizeGermanBundesligaMatch rt now b c r))
       \<and> (jsget b ''pageUrl'' = JUndefined \<and> jsget (jsget b ''status'') ''liveTime'' = JUndefined \<longrightarrow>
            map_sum id (\<lambda>x. (pageUrl x, liveTime x)) (normalizeAustrianWeekendMatch rt now a c)
            = map_sum id (\<lambda>x. (pageUrl x, liveTime x)) (normalizeGermanBundesligaMatch rt now b c r))
       \<and> (\<not> truthy (jsget (jsget b ''status'') ''ongoing'')
           \<and> \<not> truthy r \<and> jsget a ''round'' = jsget b ''round''
           \<and> truthy (jsget a ''season'') \<and> jsget a ''season'' = jsget b ''season''
           \<and> jsget b ''pageUrl'' = JUndefined \<and> jsget (jsget b ''status'') ''liveTime'' = JUndefined \<longrightarrow>
            map_sum id withoutBestOdds (normalizeAustrianWeekendMatch rt now a c)
            = map_sum id withoutBestOdds (normalizeGermanBundesligaMatch rt now b c r))"
proof -
  from assms(1) have i: "jsget a ''id'' = jsget b ''id''"
    and h: "teamOf (jsget a ''homeTeam'') = teamOf (jsget b ''home'')"
    and w: "teamOf (jsget a ''awayTeam'') = teamOf (jsget b ''away'')"
    and p: "parseUTCTime rt (jsget a ''utcTime'') = parseUTCTime rt (jsget (jsget b ''status'') ''utcTime'')"
    by (simp_all add: sameFixture_def teamOf_same)
  have st: "determineStatus now ko (jsget (jsget a ''status'') ''finished'')
              (jsget (jsget a ''status'') ''started'') (jsget (jsget a ''status'') ''cancelled'') JUndefined
            = determineStatus now ko (jsget (jsget b ''status'') ''finished'')
              (jsget (jsget b ''status'') ''started'') (jsget (jsget b ''status'') ''cancelled'')
              (jsget (jsget b ''status'') ''ongoing'')"
    if "\<not> truthy (jsget (jsget b ''status'') ''ongoing'')" for ko
    using that assms(1) by (intro determineStatus_truthy) (simp_all add: sameFixture_def)
  show ?thesis
    unfolding normalizeAustrianWeekendMatch_cases normalizeGermanBundesligaMatch_cases i h w p
    using assms(2) st
    by (auto simp: defaultParam_def or_js_def withoutBestOdds_def split: sum.splits option.splits)
qed

theorem shapes_A_and_B_converge_witness:
  "map_sum id withoutBestOdds (normalizeAustrianWeekendMatch (node 0) 1755889200000 exampleA2 AUSTRIAN_BUNDESLIGA)
   = map_sum id withoutBestOdds
       (normalizeGermanBundesligaMatch (node 0) 1755889200000 exampleB2 AUSTRIAN_BUNDESLIGA JUndefined)"
proof -
  have s: "sameFixture (node 0) exampleA2 exampleB2"
    by code_simp
  have c: "AUSTRIAN_BUNDESLIGA \<noteq> JUndefined"
    by (simp add: AUSTRIAN_BUNDESLIGA_def leagueConfigOf_def)
  have o: "\<not> truthy (jsget (jsget exampleB2 ''status'') ''ongoing'')
           \<and> \<not> truthy JUndefined \<and> jsget exampleA2 ''round'' = jsget exampleB2 ''round''
           \<and> truthy (jsget exampleA2 ''season'') \<and> jsget exampleA2 ''season'' = jsget exampleB2 ''season''
           \<and> jsget exampleB2 ''pageUrl'' = JUndefined
           \<and> jsget (jsget exampleB2 ''status'') ''liveTime'' = JUndefined"
    by code_simp
  note t = shapes_A_and_B_converge [OF s c, of 1755889200000 JUndefined]
  from t have "\<not> truthy (jsget (jsget exampleB2 ''status'') ''ongoing'')
           \<and> \<not> truthy JUndefined \<and> jsget exampleA2 ''round'' = jsget exampleB2 ''round''
           \<and> truthy (jsget exampleA2 ''season'') \<and> jsget exampleA2 ''season'' = jsget exampleB2 ''season''
           \<and> jsget exampleB2 ''pageUrl'' = JUndefined
           \<and> jsget (jsget exampleB2 ''status'') ''liveTime'' = JUndefined \<longrightarrow>
     map_sum id withoutBestOdds (normalizeAustrianWeekendMatch (node 0) 1755889200000 exampleA2 AUSTRIAN_BUNDESLIGA)
     = map_sum id withoutBestOdds
       (normalizeGermanBundesligaMatch (node 0) 1755889200000 exampleB2 AUSTRIAN_BUNDESLIGA JUndefined)"
    by (elim conjE)
  from mp [OF this o] show ?thesis .
qed

text \<open>
  C1 as stated fails: the two records of the example fixture agree on teams, kickoff
  and flags and carry no season; Shape A then returns no season and Shape B 2024/25.
\<close>

theorem season_differs_between_shapes:
  "sameFixture (node 0) exampleA exampleB
   \<and> map_sum id season (normalizeAustrianWeekendMatch (node 0) 1755648000000 exampleA AUSTRIAN_BUNDESLIGA)
     \<noteq> map_sum id season
         (normalizeGermanBundesligaMatch (node 0) 1755648000000 exampleB AUSTRIAN_BUNDESLIGA JUndefined)"
  by code_simp

section \<open>The round selector\<close>

lemma slice_nat: "slice xs (int i) (int i + int n) = take n (drop i xs)"
proof (cases "i \<le> length xs")
  case True
  then have "nat (min (int i + int n) (int (length xs)) - int i) = min n (length xs - i)"
    unfolding min_def by (auto simp: nat_diff_distrib)
  with True show ?thesis
    by (simp add: slice_def Let_def min_def)
next
  case False
  then show ?thesis
    by (simp add: slice_def Let_def min_def)
qed

lemma roundsOf_step:
  "0 < n \<Longrightarrow> xs \<noteq> [] \<Longrightarrow> roundsOf n xs = take n xs # roundsOf n (drop n xs)"
  by (subst roundsOf.simps) simp

lemma roundsOf_Nil: "roundsOf n [] = []"
  by (subst roundsOf.simps) simp

lemma groupRounds_rounds:
  "0 < n \<Longrightarrow> groupRounds ms (int n) (int i) acc = Some (acc @ roundsOf n (drop i ms))"
proof (induction "length ms - i" arbitrary: i acc rule: less_induct)
  case less
  show ?case
  proof (cases "i < length ms")
    case True
    with less.prems have "length ms - (i + n) < length ms - i"
      by simp
    from less.hyps [OF this less.prems, of "acc @ [slice ms (int i) (int i + int n)]"]
    have "groupRounds ms (int n) (int (i + n)) (acc @ [slice ms (int i) (int i + int n)])
            = Some ((acc @ [take n (drop i ms)]) @ roundsOf n (drop (i + n) ms))"
      by (simp add: slice_nat)
    moreover from True have "drop i ms \<noteq> []"
      by simp
    then have "roundsOf n (drop i ms) = take n (drop i ms) # roundsOf n (drop (i + n) ms)"
      using roundsOf_step [OF less.prems, of "drop i ms"] by (simp add: add.commute)
    ultimately show ?thesis
      using True by (subst groupRounds.simps) simp
  next
    case False
    then show ?thesis
      by (subst groupRounds.simps) (simp add: roundsOf_Nil)
  qed
qed

lemma calculateCurrentRound_rounds:
  assumes "0 < matchesPerRound cfg"
  shows "calculateCurrentRound rt now ms cfg =
           Some (case findCurrentRound rt now (roundsOf (nat (matchesPerRound cfg)) ms) 0 of
                   Some r \<Rightarrow> r
                 | None \<Rightarrow> int (length (roundsOf (nat (matchesPerRound cfg)) ms)))"
proof -
  from assms have "0 < nat (matchesPerRound cfg)" by simp
  from groupRounds_rounds [OF this, of ms 0 "[]"] assms show ?thesis
    by (simp add: calculateCurrentRound_def)
qed

lemma findCurrentRound_Cons:
  "findCurrentRound rt now (g # gs) idx =
     (if g \<noteq> [] \<and> withinGrace rt now g then Some (idx + 1) else findCurrentRound rt now gs (idx + 1))"
  by (simp add: withinGrace_def Let_def)

lemma findCurrentRound_bounds:
  "findCurrentRound rt now gs idx = Some r \<Longrightarrow> idx < r \<and> r \<le> idx + int (length gs)"
proof (induction gs arbitrary: idx)
  case Nil
  then show ?case by simp
next
  case (Cons g gs)
  show ?case
  proof (cases "g \<noteq> [] \<and> withinGrace rt now g")
    case True
    with Cons.prems show ?thesis
      by (simp only: findCurrentRound_Cons if_True) simp
  next
    case False
    with Cons.prems have "findCurrentRound rt now gs (idx + 1) = Some r"
      by (simp only: findCurrentRound_Cons if_False)
    from Cons.IH [OF this] show ?thesis by simp
  qed
qed

lemma findCurrentRound_find:
  assumes "\<forall>g\<in>set gs. g \<noteq> []"
  shows "case findCurrentRound rt now gs idx of
           None \<Rightarrow> find (withinGrace rt now) gs = None
         | Some r \<Rightarrow> find (withinGrace rt now) gs = Some (gs ! nat (r - idx - 1))"
  using assms
proof (induction gs arbitrary: idx)
  case Nil
  then show ?case by simp
next
  case (Cons g gs)
  then have g: "g \<noteq> []" and gs: "\<forall>g\<in>set gs. g \<noteq> []"
    by simp_all
  show ?case
  proof (cases "withinGrace rt now g")
    case True
    with g show ?thesis
      by (simp only: findCurrentRound_Cons) simp
  next
    case False
    then have e: "findCurrentRound rt now (g # gs) idx = findCurrentRound rt now gs (idx + 1)"
      by (simp only: findCurrentRound_Cons) simp
    show ?thesis
    proof (cases "findCurrentRound rt now gs (idx + 1)")
      case None
      with Cons.IH [OF gs, of "idx + 1"] False e show ?thesis
        by simp
    next
      case (Some r)
      from findCurrentRound_bounds [OF Some] have "nat (r - idx - 1) = Suc (nat (r - (idx + 1) - 1))"
        by linarith
      with Cons.IH [OF gs, of "idx + 1"] Some False e show ?thesis
        by simp
    qed
  qed
qed

lemma roundsOf_nonempty: "g \<in> set (roundsOf n xs) \<Longrightarrow> g \<noteq> []"
proof (induction n xs rule: roundsOf.induct)
  case (1 n xs)
  show ?case
  proof (cases "n = 0 \<or> xs = []")
    case True
    with "1.prems" show ?thesis
      by (subst (asm) roundsOf.simps) simp
  next
    case False
    with "1.prems" have "g = take n xs \<or> g \<in> set (roundsOf n (drop n xs))"
      by (subst (asm) roundsOf.simps) simp
    with False "1.IH" show ?thesis
      by auto
  qed
qed

lemma roundsOf_nth:
  "j < length (roundsOf n xs) \<Longrightarrow> roundsOf n xs ! j = take n (drop (j * n) xs)"
proof (induction n xs arbitrary: j rule: roundsOf.induct)
  case (1 n xs)
  show ?case
  proof (cases "n = 0 \<or> xs = []")
    case True
    with "1.prems" show ?thesis
      by (subst (asm) roundsOf.simps) simp
  next
    case False
    then have e: "roundsOf n xs = take n xs # roundsOf n (drop n xs)"
      by (subst roundsOf.simps) simp
    show ?thesis
    proof (cases j)
      case 0
      with e show ?thesis by (simp)
    next
      case (Suc i)
      with "1.prems" e have "i < length (roundsOf n (drop n xs))"
        by (simp)
      from "1.IH" [OF False this] Suc e show ?thesis
        by (simp add: add.commute)
    qed
  qed
qed

lemma sorted_Max_last:
  fixes xs :: "int list"
  assumes "sorted xs" "xs \<noteq> []"
  shows "Max (set xs) = last xs"
proof (rule Max_eqI)
  show "finite (set xs)" by simp
  show "last xs \<in> set xs" using assms(2) by simp
  fix y
  assume "y \<in> set xs"
  then obtain i where i: "i < length xs" "y = xs ! i"
    by (auto simp: in_set_conv_nth)
  with assms have "xs ! i \<le> xs ! (length xs - 1)"
    by (intro sorted_nth_mono) simp_all
  with i assms(2) show "y \<le> last xs"
    by (simp add: last_conv_nth)
qed

lemma withinGrace_closing:
  assumes "g \<noteq> []" "\<forall>m\<in>set g. dateParse rt (fixture_date m) \<noteq> None" "sorted (map (kickoffOf rt) g)"
  shows "withinGrace rt now g \<longleftrightarrow> now < closingKickoff rt g + 120 * 60000"
proof -
  from assms(1,2) obtain k where k: "dateParse rt (fixture_date (last g)) = Some k"
    by (meson last_in_set not_Some_eq)
  from assms(1,3) have "closingKickoff rt g = kickoffOf rt (last g)"
    by (simp add: closingKickoff_def sorted_Max_last last_map del: set_map)
  with k show ?thesis
    by (auto simp: withinGrace_def kickoffOf_def int_less_def GRACE_PERIOD_MS_def MINUTES_IN_MS_def)
qed

text \<open>
  For matches sorted by kickoff (all of them parse) and a positive \<open>matchesPerRound\<close>,
  \<open>calculateCurrentRound\<close> returns a round number whose matches, as
  \<open>filterCurrentRoundMatches\<close> cuts them out, are the specification's current round.
\<close>

lemma calculateCurrentRound_first_open_group:
  assumes "0 < matchesPerRound cfg" and "ms \<noteq> []"
      and "\<forall>m\<in>set ms. dateParse rt (fixture_date m) \<noteq> None"
      and "sorted (map (kickoffOf rt) ms)"
  shows "\<exists>r. calculateCurrentRound rt now ms cfg = Some r
           \<and> 1 \<le> r \<and> r \<le> int (length (roundsOf (nat (matchesPerRound cfg)) ms))
           \<and> filterCurrentRoundMatches ms r cfg
               = selectCurrentRound_spec rt now ms (nat (matchesPerRound cfg))"
proof -
  define n where "n = nat (matchesPerRound cfg)"
  define G where "G = roundsOf n ms"
  from assms(1) have n: "0 < n" "matchesPerRound cfg = int n"
    by (simp_all add: n_def)
  from n(1) assms(2) have Gne: "G \<noteq> []"
    by (simp add: G_def roundsOf_step)
  have ne: "\<forall>g\<in>set G. g \<noteq> []"
    by (auto simp: G_def dest: roundsOf_nonempty)
  have grp: "G ! j = take n (drop (j * n) ms)" if "j < length G" for j
    using that by (simp add: G_def roundsOf_nth)
  have P: "withinGrace rt now g \<longleftrightarrow> now < closingKickoff rt g + 120 * 60000" if "g \<in> set G" for g
  proof -
    from that obtain j where j: "j < length G" "g = G ! j"
      by (auto simp: in_set_conv_nth)
    with grp have g: "g = take n (drop (j * n) ms)"
      by simp
    then have "set g \<subseteq> set ms"
      by (metis set_drop_subset set_take_subset subset_trans)
    with assms(3) have a: "\<forall>m\<in>set g. dateParse rt (fixture_date m) \<noteq> None"
      by blast
    have "map (kickoffOf rt) g = take n (drop (j * n) (map (kickoffOf rt) ms))"
      by (simp add: g take_map drop_map)
    with assms(4) have b: "sorted (map (kickoffOf rt) g)"
      by (simp add: sorted_wrt_take sorted_wrt_drop)
    from that ne have "g \<noteq> []"
      by blast
    from withinGrace_closing [OF this a b] show ?thesis .
  qed
  have fnd: "find (withinGrace rt now) G = find (\<lambda>g. now < closingKickoff rt g + 120 * 60000) G"
    by (rule find_cong) (simp_all add: P)
  have spec: "selectCurrentRound_spec rt now ms n
                = (case find (withinGrace rt now) G of Some g \<Rightarrow> g | None \<Rightarrow> last G)"
    by (simp only: selectCurrentRound_spec_def G_def [symmetric] fnd)
  have cut: "filterCurrentRoundMatches ms (int j + 1) cfg = G ! j" if "j < length G" for j
  proof -
    have "(int j + 1 - 1) * int n = int (j * n)"
      by simp
    then have "filterCurrentRoundMatches ms (int j + 1) cfg = slice ms (int (j * n)) (int (j * n) + int n)"
      by (simp only: filterCurrentRoundMatches_def Let_def n(2))
    with grp [OF that] show ?thesis
      by (simp only: slice_nat)
  qed
  have calc: "calculateCurrentRound rt now ms cfg =
                Some (case findCurrentRound rt now G 0 of Some r \<Rightarrow> r | None \<Rightarrow> int (length G))"
    unfolding G_def n_def by (rule calculateCurrentRound_rounds [OF assms(1)])
  show ?thesis
  proof (cases "findCurrentRound rt now G 0")
    case None
    with findCurrentRound_find [OF ne, of rt now 0] have "find (withinGrace rt now) G = None"
      by simp
    with spec Gne have "selectCurrentRound_spec rt now ms n = G ! (length G - 1)"
      by (simp add: last_conv_nth)
    moreover from Gne have "filterCurrentRoundMatches ms (int (length G - 1) + 1) cfg = G ! (length G - 1)"
      by (intro cut) simp
    moreover from Gne have "int (length G - 1) + 1 = int (length G)"
      by (cases G) simp_all
    ultimately have "filterCurrentRoundMatches ms (int (length G)) cfg = selectCurrentRound_spec rt now ms n"
      by simp
    moreover from Gne have "1 \<le> int (length G)"
      by (cases G) simp_all
    ultimately show ?thesis
      using calc None by (simp add: G_def n_def)
  next
    case (Some r)
    from findCurrentRound_bounds [OF Some] have b: "0 < r" "r \<le> int (length G)"
      by simp_all
    then have j: "nat (r - 1) < length G" "int (nat (r - 1)) + 1 = r"
      by simp_all
    from findCurrentRound_find [OF ne, of rt now 0] Some
    have "find (withinGrace rt now) G = Some (G ! nat (r - 1))"
      by simp
    with spec have "selectCurrentRound_spec rt now ms n = G ! nat (r - 1)"
      by simp
    with cut [OF j(1)] j(2) have "filterCurrentRoundMatches ms r cfg = selectCurrentRound_spec rt now ms n"
      by simp
    with b calc Some show ?thesis
      by (simp add: G_def n_def)
  qed
qed

subsection \<open>The selector of the Bundesliga route\<close>

lemma slice_subset: "set (slice xs lo hi) \<subseteq> set xs"
  unfolding slice_def Let_def by (meson set_drop_subset set_take_subset subset_trans)

lemma getMatchesForRound_subset: "set (getMatchesForRound allMatches q) \<subseteq> set allMatches"
  by (simp add: getMatchesForRound_def Let_def slice_subset)

lemma getMatchesForRound_layout:
  assumes "6 \<le> q"
  shows "getMatchesForRound allMatches q =
           take (if q = 6 then 10 else 9) (drop (if q = 7 then 54 else nat (9 * (q - 6) + 44)) allMatches)"
proof -
  have a: "slice allMatches 44 54 = take 10 (drop 44 allMatches)"
    using slice_nat [of allMatches 44 10] by simp
  have b: "slice allMatches 54 63 = take 9 (drop 54 allMatches)"
    using slice_nat [of allMatches 54 9] by simp
  have c: "slice allMatches ((q - 6) * matchesPerRound_route + 44)
               ((q - 6) * matchesPerRound_route + 44 + matchesPerRound_route)
             = take 9 (drop (nat (9 * (q - 6) + 44)) allMatches)"
  proof -
    define i where "i = nat (9 * (q - 6) + 44)"
    have "slice allMatches (int i) (int i + int 9) = take 9 (drop i allMatches)"
      by (rule slice_nat)
    moreover from assms have "int i = (q - 6) * 9 + 44"
      by (simp add: i_def)
    ultimately show ?thesis
      by (simp add: matchesPerRound_route_def i_def)
  qed
  show ?thesis
  proof (cases "q = 6")
    case True
    then show ?thesis
      by (simp add: getMatchesForRound_def a)
  next
    case False
    show ?thesis
    proof (cases "q = 7")
      case True
      then show ?thesis
        by (simp add: getMatchesForRound_def b)
    next
      case False
      with \<open>q \<noteq> 6\<close> show ?thesis
        by (simp only: getMatchesForRound_def Let_def c if_False)
    qed
  qed
qed

lemma Max_insert_max:
  fixes a k :: int
  assumes "finite A"
  shows "Max (insert (max a k) A) = Max (insert a (insert k A))"
  using assms by (cases "A = {}") (simp_all add: max.assoc)

lemma lastGameTimeOf_Max:
  assumes "\<forall>m\<in>set g. routeReadable rt m"
  shows "lastGameTimeOf rt (Some (Some a)) g
           = Inr (Some (Some (Max (insert a (set (map (routeKickoff rt) g))))))"
  using assms
proof (induction g arbitrary: a)
  case Nil
  then show ?case by simp
next
  case (Cons m g)
  from Cons.prems obtain k where k: "newDate rt (jsget (jsget m ''status'') ''utcTime'') = Some k"
      and r: "\<not> nullish m" "\<not> nullish (jsget m ''status'')"
    by (auto simp: routeReadable_def)
  from k have rk: "routeKickoff rt m = k"
    by (simp add: routeKickoff_def)
  from Cons.prems have "\<forall>m\<in>set g. routeReadable rt m"
    by simp
  note ih = Cons.IH [OF this]
  have "lastGameTimeOf rt (Some (Some a)) (m # g) = lastGameTimeOf rt (Some (Some (max a k))) g"
    using k r by (simp add: date_greater_def max_def)
  also have "\<dots> = Inr (Some (Some (Max (insert (max a k) (set (map (routeKickoff rt) g))))))"
    by (rule ih)
  also have "Max (insert (max a k) (set (map (routeKickoff rt) g)))
               = Max (insert a (set (map (routeKickoff rt) (m # g))))"
    using Max_insert_max [of "set (map (routeKickoff rt) g)" a k] by (simp add: rk)
  finally show ?case .
qed

lemma lastGameTimeOf_closing:
  assumes "\<forall>m\<in>set g. routeReadable rt m" and "g \<noteq> []"
  shows "lastGameTimeOf rt None g = Inr (Some (Some (routeClosing rt g)))"
proof -
  from assms(2) obtain m g' where g: "g = m # g'"
    by (cases g) simp_all
  from assms(1) g obtain k where k: "newDate rt (jsget (jsget m ''status'') ''utcTime'') = Some k"
      and r: "\<not> nullish m" "\<not> nullish (jsget m ''status'')"
    by (auto simp: routeReadable_def)
  from k have rk: "routeKickoff rt m = k"
    by (simp add: routeKickoff_def)
  from assms(1) g have "\<forall>m\<in>set g'. routeReadable rt m"
    by simp
  note t = lastGameTimeOf_Max [OF this, of k]
  have "lastGameTimeOf rt None g = lastGameTimeOf rt (Some (Some k)) g'"
    using k r by (simp add: g)
  with t show ?thesis
    by (simp add: routeClosing_def g rk)
qed

lemma routeCurrentRound_step:
  assumes "\<forall>m\<in>set allMatches. routeReadable rt m" and "c \<le> 34"
  shows "routeCurrentRound rt now allMatches c =
           (if getMatchesForRound allMatches c = [] \<or> routeOpen rt now (getMatchesForRound allMatches c)
            then Inr c else routeCurrentRound rt now allMatches (c + 1))"
proof (cases "getMatchesForRound allMatches c = []")
  case True
  with assms(2) show ?thesis
    by (subst routeCurrentRound.simps) simp
next
  case False
  from assms(1) getMatchesForRound_subset [of allMatches c]
  have "\<forall>m\<in>set (getMatchesForRound allMatches c). routeReadable rt m"
    by blast
  from lastGameTimeOf_closing [OF this False]
  have l: "lastGameTimeOf rt None (getMatchesForRound allMatches c)
             = Inr (Some (Some (routeClosing rt (getMatchesForRound allMatches c))))" .
  have o: "nan_less (minutesElapsed now (Some (routeClosing rt (getMatchesForRound allMatches c)))) 120
             \<longleftrightarrow> routeOpen rt now (getMatchesForRound allMatches c)"
    unfolding minutes_less_iff routeOpen_def by arith
  from False assms(2) show ?thesis
    by (subst routeCurrentRound.simps) (simp add: Let_def l o)
qed

lemma routeCurrentRound_first_open:
  assumes "\<forall>m\<in>set allMatches. routeReadable rt m"
  shows "c \<le> 35 \<Longrightarrow>
         \<exists>r. routeCurrentRound rt now allMatches c = Inr r \<and> c \<le> r \<and> r \<le> 35
           \<and> (\<forall>q. c \<le> q \<and> q < r \<longrightarrow> getMatchesForRound allMatches q \<noteq> []
                  \<and> \<not> routeOpen rt now (getMatchesForRound allMatches q))
           \<and> (r \<le> 34 \<longrightarrow> getMatchesForRound allMatches r = []
                  \<or> routeOpen rt now (getMatchesForRound allMatches r))"
proof (induction "nat (35 - c)" arbitrary: c)
  case 0
  then have "c = 35"
    by simp
  then show ?case
    by (subst routeCurrentRound.simps) auto
next
  case (Suc n)
  then have c: "c \<le> 34"
    by simp
  note step = routeCurrentRound_step [OF assms c, of now]
  show ?case
  proof (cases "getMatchesForRound allMatches c = [] \<or> routeOpen rt now (getMatchesForRound allMatches c)")
    case True
    with step c show ?thesis
      by auto
  next
    case False
    from Suc.hyps(2) have "n = nat (35 - (c + 1))"
      by simp
    from Suc.hyps(1) [OF this] c obtain r where
        r: "routeCurrentRound rt now allMatches (c + 1) = Inr r" "c + 1 \<le> r" "r \<le> 35"
           "\<forall>q. c + 1 \<le> q \<and> q < r \<longrightarrow> getMatchesForRound allMatches q \<noteq> []
                  \<and> \<not> routeOpen rt now (getMatchesForRound allMatches q)"
           "r \<le> 34 \<longrightarrow> getMatchesForRound allMatches r = []
                  \<or> routeOpen rt now (getMatchesForRound allMatches r)"
      by auto
    have "\<forall>q. c \<le> q \<and> q < r \<longrightarrow> getMatchesForRound allMatches q \<noteq> []
                  \<and> \<not> routeOpen rt now (getMatchesForRound allMatches q)"
    proof (intro allI impI)
      fix q
      assume q: "c \<le> q \<and> q < r"
      show "getMatchesForRound allMatches q \<noteq> [] \<and> \<not> routeOpen rt now (getMatchesForRound allMatches q)"
      proof (cases "q = c")
        case True
        with False show ?thesis by simp
      next
        case False
        with q have "c + 1 \<le> q \<and> q < r" by simp
        with r(4) show ?thesis by blast
      qed
    qed
    moreover from step False r(1) have "routeCurrentRound rt now allMatches c = Inr r"
      by simp
    ultimately show ?thesis
      using r(2,3,5) by auto
  qed
qed

text \<open>
  C4, as the code has it. The selector of the unified utilities does what the claim
  says: for a non-empty list sorted by kickoff (every kickoff parses) and a positive
  \<open>matchesPerRound\<close>, \<open>calculateCurrentRound\<close> with \<open>filterCurrentRoundMatches\<close> gives the
  first group whose latest kickoff plus 120 minutes is still after now, and the last
  group when the grace window of every group has passed. The selector of the Bundesliga
  route does not partition from the first entry: its rounds are numbered from 6, round 6
  is the ten entries from index 44, round 7 the nine from index 54 and a later round
  \<open>q\<close> the nine from index \<open>9 (q - 6) + 44\<close>. Over entries it can read it selects the
  first round from 6 to 34 that is empty or whose latest kickoff plus 120 minutes is
  still after now, round 35 when there is none, and delivers the entries of that round.
\<close>

theorem round_selectors:
  "(0 < matchesPerRound cfg \<and> ms \<noteq> [] \<and> (\<forall>m\<in>set ms. dateParse rt (fixture_date m) \<noteq> None)
      \<and> sorted (map (kickoffOf rt) ms) \<longrightarrow>
      (\<exists>r. calculateCurrentRound rt now ms cfg = Some r
           \<and> 1 \<le> r \<and> r \<le> int (length (roundsOf (nat (matchesPerRound cfg)) ms))
           \<and> filterCurrentRoundMatches ms r cfg
               = selectCurrentRound_spec rt now ms (nat (matchesPerRound cfg))))
   \<and> ((\<forall>m\<in>set allMatches. routeReadable rt m) \<longrightarrow>
      (\<exists>r. routeRoundMatches rt now allMatches = Inr (r, getMatchesForRound allMatches r)
           \<and> 6 \<le> r \<and> r \<le> 35
           \<and> (\<forall>q. 6 \<le> q \<and> q < r \<longrightarrow> getMatchesForRound allMatches q \<noteq> []
                  \<and> \<not> routeOpen rt now (getMatchesForRound allMatches q))
           \<and> (r \<le> 34 \<longrightarrow> getMatchesForRound allMatches r = []
                  \<or> routeOpen rt now (getMatchesForRound allMatches r))))
   \<and> (6 \<le> k \<longrightarrow>
      getMatchesForRound allMatches k =
        take (if k = 6 then 10 else 9) (drop (if k = 7 then 54 else nat (9 * (k - 6) + 44)) allMatches))"
proof (intro conjI impI)
  assume "0 < matchesPerRound cfg \<and> ms \<noteq> [] \<and> (\<forall>m\<in>set ms. dateParse rt (fixture_date m) \<noteq> None)
      \<and> sorted (map (kickoffOf rt) ms)"
  then show "\<exists>r. calculateCurrentRound rt now ms cfg = Some r
           \<and> 1 \<le> r \<and> r \<le> int (length (roundsOf (nat (matchesPerRound cfg)) ms))
           \<and> filterCurrentRoundMatches ms r cfg
               = selectCurrentRound_spec rt now ms (nat (matchesPerRound cfg))"
    by (elim conjE) (rule calculateCurrentRound_first_open_group; assumption)
next
  assume "\<forall>m\<in>set allMatches. routeReadable rt m"
  from routeCurrentRound_first_open [OF this, of 6 now]
  show "\<exists>r. routeRoundMatches rt now allMatches = Inr (r, getMatchesForRound allMatches r)
           \<and> 6 \<le> r \<and> r \<le> 35
           \<and> (\<forall>q. 6 \<le> q \<and> q < r \<longrightarrow> getMatchesForRound allMatches q \<noteq> []
                  \<and> \<not> routeOpen rt now (getMatchesForRound allMatches q))
           \<and> (r \<le> 34 \<longrightarrow> getMatchesForRound allMatches r = []
                  \<or> routeOpen rt now (getMatchesForRound allMatches r))"
    by (auto simp: routeRoundMatches_def)
next
  assume "6 \<le> k"
  then show "getMatchesForRound allMatches k =
        take (if k = 6 then 10 else 9) (drop (if k = 7 then 54 else nat (9 * (k - 6) + 44)) allMatches)"
    by (rule getMatchesForRound_layout)
qed

theorem round_selectors_witness:
  "(\<exists>r. calculateCurrentRound (node 0) 1755964800000 exampleSeason exampleLeague = Some r
       \<and> filterCurrentRoundMatches exampleSeason r exampleLeague
           = [exampleCached 3 ''2025-08-22T18:30:00Z'', exampleCached 4 ''2025-08-23T15:00:00Z''])
   \<and> routeRoundMatches (node 0) 1755964800000 exampleCache
       = Inr (7, [exampleEntry 54 ''2025-08-29T18:30:00Z'', exampleEntry 55 ''2025-08-30T15:00:00Z''])
   \<and> \<not> routeOpen (node 0) 1755964800000 (getMatchesForRound exampleCache 6)
   \<and> routeOpen (node 0) 1755964800000 (getMatchesForRound exampleCache 7)
   \<and> getMatchesForRound exampleCache 8 = take 9 (drop 62 exampleCache)"
proof -
  have a: "0 < matchesPerRound exampleLeague \<and> exampleSeason \<noteq> []
           \<and> (\<forall>m\<in>set exampleSeason. dateParse (node 0) (fixture_date m) \<noteq> None)
           \<and> sorted (map (kickoffOf (node 0)) exampleSeason)"
    by code_simp
  have s: "selectCurrentRound_spec (node 0) 1755964800000 exampleSeason (nat (matchesPerRound exampleLeague))
             = [exampleCached 3 ''2025-08-22T18:30:00Z'', exampleCached 4 ''2025-08-23T15:00:00Z'']"
    by code_simp
  have b: "\<forall>m\<in>set exampleCache. routeReadable (node 0) m"
    by code_simp
  have v: "routeRoundMatches (node 0) 1755964800000 exampleCache
             = Inr (7, [exampleEntry 54 ''2025-08-29T18:30:00Z'', exampleEntry 55 ''2025-08-30T15:00:00Z''])"
    by code_simp
  note t = round_selectors [where cfg = exampleLeague and ms = exampleSeason and rt = "node 0"
      and now = 1755964800000 and allMatches = exampleCache and k = 8]
  from mp [OF conjunct1 [OF t] a]
  have p1: "\<exists>r. calculateCurrentRound (node 0) 1755964800000 exampleSeason exampleLeague = Some r
       \<and> filterCurrentRoundMatches exampleSeason r exampleLeague
           = [exampleCached 3 ''2025-08-22T18:30:00Z'', exampleCached 4 ''2025-08-23T15:00:00Z'']"
    unfolding s by blast
  from mp [OF conjunct1 [OF conjunct2 [OF t]] b] obtain r where
      r: "routeRoundMatches (node 0) 1755964800000 exampleCache = Inr (r, getMatchesForRound exampleCache r)"
         "\<forall>q. 6 \<le> q \<and> q < r \<longrightarrow> getMatchesForRound exampleCache q \<noteq> []
              \<and> \<not> routeOpen (node 0) 1755964800000 (getMatchesForRound exampleCache q)"
         "r \<le> 34 \<longrightarrow> getMatchesForRound exampleCache r = []
              \<or> routeOpen (node 0) 1755964800000 (getMatchesForRound exampleCache r)"
    by blast
  from r(1) have r7: "r = 7"
    and g7: "getMatchesForRound exampleCache r
               = [exampleEntry 54 ''2025-08-29T18:30:00Z'', exampleEntry 55 ''2025-08-30T15:00:00Z'']"
    unfolding v by simp_all
  from r(2) have p3: "\<not> routeOpen (node 0) 1755964800000 (getMatchesForRound exampleCache 6)"
    unfolding r7 by simp
  from r(3) g7 have p4: "routeOpen (node 0) 1755964800000 (getMatchesForRound exampleCache 7)"
    unfolding r7 by simp
  from conjunct2 [OF conjunct2 [OF t]]
  have p5: "getMatchesForRound exampleCache 8 = take 9 (drop 62 exampleCache)"
    by simp
  from p1 v p3 p4 p5 show ?thesis
    by (intro conjI)
qed

text \<open>
  C4 as stated fails for the selector of the Bundesliga route. Before the first kickoff
  of the example cache the first group of nine is open, and the route delivers the
  entries 44 to 53; when every kickoff is more than 120 minutes past the last group is
  the entries 54 and 55, and the route delivers round 8, which is empty.
\<close>

theorem route_round_is_not_first_or_last_group:
  "routeRoundMatches (node 0) 1754784000000 exampleCache = Inr (6, take 10 (drop 44 exampleCache))
   \<and> selectRouteRound_spec (node 0) 1754784000000 exampleCache 9 = take 9 exampleCache
   \<and> take 10 (drop 44 exampleCache) \<noteq> take 9 exampleCache
   \<and> routeRoundMatches (node 0) 1757462400000 exampleCache = Inr (8, [])
   \<and> selectRouteRound_spec (node 0) 1757462400000 exampleCache 9 = drop 54 exampleCache
   \<and> drop 54 exampleCache \<noteq> []"
proof (intro conjI)
  show "routeRoundMatches (node 0) 1754784000000 exampleCache = Inr (6, take 10 (drop 44 exampleCache))"
    by code_simp
  show "selectRouteRound_spec (node 0) 1754784000000 exampleCache 9 = take 9 exampleCache"
    by code_simp
  show "take 10 (drop 44 exampleCache) \<noteq> take 9 exampleCache"
    by code_simp
  show "routeRoundMatches (node 0) 1757462400000 exampleCache = Inr (8, [])"
    by code_simp
  show "selectRouteRound_spec (node 0) 1757462400000 exampleCache 9 = drop 54 exampleCache"
    by code_simp
  show "drop 54 exampleCache \<noteq> []"
    by code_simp
qed

section \<open>Rounds only advance\<close>

lemma withinGrace_mono: "t1 \<le> t2 \<Longrightarrow> withinGrace rt t2 g \<Longrightarrow> withinGrace rt t1 g"
  by (auto simp: withinGrace_def int_less_def split: option.splits)

lemma roundAt_Nil: "roundAt rt now [] idx = idx"
  by (simp add: roundAt_def)

lemma roundAt_Cons:
  "roundAt rt now (g # gs) idx =
     (if g \<noteq> [] \<and> withinGrace rt now g then idx + 1 else roundAt rt now gs (idx + 1))"
  unfolding roundAt_def findCurrentRound_Cons by (simp split: option.splits)

lemma roundAt_lower: "idx \<le> roundAt rt now gs idx"
proof (cases "findCurrentRound rt now gs idx")
  case None
  then show ?thesis by (simp add: roundAt_def)
next
  case (Some r)
  with findCurrentRound_bounds [OF Some] show ?thesis by (simp add: roundAt_def)
qed

lemma roundAt_mono: "t1 \<le> t2 \<Longrightarrow> roundAt rt t1 gs idx \<le> roundAt rt t2 gs idx"
proof (induction gs arbitrary: idx)
  case Nil
  then show ?case by (simp add: roundAt_Nil)
next
  case (Cons g gs)
  show ?case
  proof (cases "g \<noteq> [] \<and> withinGrace rt t2 g")
    case True
    with withinGrace_mono [OF Cons.prems] have "g \<noteq> [] \<and> withinGrace rt t1 g"
      by blast
    with True show ?thesis
      by (simp add: roundAt_Cons)
  next
    case False
    then have e: "roundAt rt t2 (g # gs) idx = roundAt rt t2 gs (idx + 1)"
      by (auto simp: roundAt_Cons)
    show ?thesis
    proof (cases "g \<noteq> [] \<and> withinGrace rt t1 g")
      case True
      then have "roundAt rt t1 (g # gs) idx = idx + 1"
        by (simp add: roundAt_Cons)
      with e roundAt_lower [of "idx + 1" rt t2 gs] show ?thesis
        by simp
    next
      case False
      then have "roundAt rt t1 (g # gs) idx = roundAt rt t1 gs (idx + 1)"
        by (auto simp: roundAt_Cons)
      with e Cons.IH [OF Cons.prems, of "idx + 1"] show ?thesis
        by simp
    qed
  qed
qed

text \<open>
  C5. For a fixed match list and a positive \<open>matchesPerRound\<close>, the round number that
  \<open>calculateCurrentRound\<close> returns does not decrease when now increases. (It holds for
  any list, sorted or not.)
\<close>

theorem round_number_monotone:
  assumes "0 < matchesPerRound cfg" and "t1 \<le> t2"
  shows "\<exists>r1 r2. calculateCurrentRound rt t1 ms cfg = Some r1
               \<and> calculateCurrentRound rt t2 ms cfg = Some r2
               \<and> r1 \<le> r2"
proof -
  let ?G = "roundsOf (nat (matchesPerRound cfg)) ms"
  have "calculateCurrentRound rt t ms cfg = Some (roundAt rt t ?G 0)" for t
    using calculateCurrentRound_rounds [OF assms(1), of rt t ms]
    by (simp add: roundAt_def split: option.splits)
  with roundAt_mono [OF assms(2), of rt ?G 0] show ?thesis
    by simp
qed

theorem round_number_monotone_witness:
  "\<exists>r1 r2. calculateCurrentRound (node 0) 1755446400000 exampleSeason exampleLeague = Some r1
          \<and> calculateCurrentRound (node 0) 1755964800000 exampleSeason exampleLeague = Some r2
          \<and> r1 \<le> r2"
proof -
  have a: "0 < matchesPerRound exampleLeague"
    by (simp add: exampleLeague_def)
  have b: "(1755446400000 :: int) \<le> 1755964800000"
    by simp
  from round_number_monotone [OF a b] show ?thesis .
qed

end
